theory Spec2Isabelle
  imports Main "HOL-Library.Sublist"
begin

section \<open>Python strings\<close>

text \<open>
  A Python \<open>str\<close> is modelled as a \<open>string\<close>, a list of characters whose code
  points lie below 256. The operations below are the ones \<open>one_click.py\<close> applies to
  strings; each follows CPython's behaviour on such text.
\<close>

text \<open>\<open>sub in s\<close> on two strings: \<open>sub\<close> occurs in \<open>s\<close> as a contiguous substring.\<close>

fun str_in :: "string \<Rightarrow> string \<Rightarrow> bool" where
  "str_in sub [] = (sub = [])"
| "str_in sub (c # cs) = (prefix sub (c # cs) \<or> str_in sub cs)"

text \<open>\<open>s.startswith(p)\<close>.\<close>

definition startswith :: "string \<Rightarrow> string \<Rightarrow> bool" where
  "startswith s p = prefix p s"

text \<open>
  \<open>s.replace(old, new)\<close>: the occurrences of \<open>old\<close> are found from left to right
  and do not overlap; for an empty \<open>old\<close> Python puts \<open>new\<close> around every character.
\<close>

fun replace :: "string \<Rightarrow> string \<Rightarrow> string \<Rightarrow> string" where
  "replace s [] new = new @ concat (map (\<lambda>c. c # new) s)"
| "replace [] (p # ps) new = []"
| "replace (c # cs) (p # ps) new =
     (if prefix (p # ps) (c # cs)
      then new @ replace (drop (length (p # ps)) (c # cs)) (p # ps) new
      else c # replace cs (p # ps) new)"

text \<open>
  \<open>s.upper()\<close> and \<open>s.lower()\<close>. Below 256 the letters with a case are the ASCII
  letters and the accented letters from \<open>0xC0\<close> to \<open>0xFE\<close>; the upper case of the
  sharp s (\<open>0xDF\<close>) is the two letters \<open>SS\<close>. The micro sign (\<open>0xB5\<close>) and the y with
  diaeresis (\<open>0xFF\<close>), whose upper-case forms lie above 255, are left as they are.
\<close>

definition latin_lowercase :: string where
  "latin_lowercase =
     ''abcdefghijklmnopqrstuvwxyz'' @
     [CHR 0xE0, CHR 0xE1, CHR 0xE2, CHR 0xE3, CHR 0xE4, CHR 0xE5, CHR 0xE6, CHR 0xE7,
     CHR 0xE8, CHR 0xE9, CHR 0xEA, CHR 0xEB, CHR 0xEC, CHR 0xED, CHR 0xEE, CHR 0xEF,
     CHR 0xF0, CHR 0xF1, CHR 0xF2, CHR 0xF3, CHR 0xF4, CHR 0xF5, CHR 0xF6, CHR 0xF8,
     CHR 0xF9, CHR 0xFA, CHR 0xFB, CHR 0xFC, CHR 0xFD, CHR 0xFE]"

definition latin_uppercase :: string where
  "latin_uppercase =
     ''ABCDEFGHIJKLMNOPQRSTUVWXYZ'' @
     [CHR 0xC0, CHR 0xC1, CHR 0xC2, CHR 0xC3, CHR 0xC4, CHR 0xC5, CHR 0xC6, CHR 0xC7,
     CHR 0xC8, CHR 0xC9, CHR 0xCA, CHR 0xCB, CHR 0xCC, CHR 0xCD, CHR 0xCE, CHR 0xCF,
     CHR 0xD0, CHR 0xD1, CHR 0xD2, CHR 0xD3, CHR 0xD4, CHR 0xD5, CHR 0xD6, CHR 0xD8,
     CHR 0xD9, CHR 0xDA, CHR 0xDB, CHR 0xDC, CHR 0xDD, CHR 0xDE]"

definition upper_char :: "char \<Rightarrow> string" where
  "upper_char c =
     (if c = CHR 0xDF then ''SS''
      else (case map_of (zip latin_lowercase latin_uppercase) c of
              Some u \<Rightarrow> [u]
            | None \<Rightarrow> [c]))"

definition lower_char :: "char \<Rightarrow> char" where
  "lower_char c =
     (case map_of (zip latin_uppercase latin_lowercase) c of
        Some l \<Rightarrow> l
      | None \<Rightarrow> c)"

definition upper :: "string \<Rightarrow> string" where
  "upper s = concat (map upper_char s)"

definition lower :: "string \<Rightarrow> string" where
  "lower s = map lower_char s"

text \<open>
  \<open>s.strip(chars)\<close> and \<open>s.rstrip(chars)\<close> remove leading/trailing characters that
  belong to \<open>chars\<close>; \<open>s.strip()\<close> removes whitespace, which below 256 is the ASCII
  whitespace, the next-line control \<open>0x85\<close> and the no-break space \<open>0xA0\<close>.
\<close>

definition lstrip_chars :: "string \<Rightarrow> string \<Rightarrow> string" where
  "lstrip_chars s chars = dropWhile (\<lambda>c. c \<in> set chars) s"

definition rstrip_chars :: "string \<Rightarrow> string \<Rightarrow> string" where
  "rstrip_chars s chars = rev (dropWhile (\<lambda>c. c \<in> set chars) (rev s))"

definition strip_chars :: "string \<Rightarrow> string \<Rightarrow> string" where
  "strip_chars s chars = rstrip_chars (lstrip_chars s chars) chars"

definition whitespace :: string where
  "whitespace =
     [CHR 0x20, CHR 0x09, CHR 0x0A, CHR 0x0B, CHR 0x0C, CHR 0x0D,
      CHR 0x1C, CHR 0x1D, CHR 0x1E, CHR 0x1F, CHR 0x85, CHR 0xA0]"

definition strip :: "string \<Rightarrow> string" where
  "strip s = strip_chars s whitespace"

text \<open>\<open>s.split(sep)\<close> for a one-character separator, and \<open>sep.join(xs)\<close>.\<close>

fun split_char :: "string \<Rightarrow> char \<Rightarrow> string list" where
  "split_char [] sep = [[]]"
| "split_char (c # cs) sep =
     (if c = sep then [] # split_char cs sep
      else (case split_char cs sep of
              [] \<Rightarrow> [[c]]
            | w # ws \<Rightarrow> (c # w) # ws))"

fun join :: "string \<Rightarrow> string list \<Rightarrow> string" where
  "join sep [] = []"
| "join sep [x] = x"
| "join sep (x # y # ys) = x @ sep @ join sep (y # ys)"

text \<open>\<open>str(n)\<close> for an integer.\<close>

fun str_nat :: "nat \<Rightarrow> string" where
  "str_nat n =
     (if n < 10 then [''0123456789'' ! n]
      else str_nat (n div 10) @ [''0123456789'' ! (n mod 10)])"

declare str_nat.simps [simp del]

definition str_int :: "int \<Rightarrow> string" where
  "str_int i = (if i < 0 then CHR ''-'' # str_nat (nat (- i)) else str_nat (nat i))"

section \<open>The host and its probes\<close>

text \<open>Exceptions of the Python runtime that the script can meet.\<close>

datatype py_error = ImportError | KeyError | FileNotFoundError | EOFError | RuntimeError

text \<open>
  Everything the script reads from its surroundings: the interpreter's platform
  identifiers, the process environment, the file system and the exit statuses of the
  shell commands it spawns. \<open>sha256_hexdigest\<close> stands for
  \<open>hashlib.sha256(bytes).hexdigest()\<close>, \<open>torch_version\<close> for what the function
  \<open>torch_version()\<close> does (it returns the version string of the installed framework, or
  raises when the framework or its version file is missing), and \<open>cpuinfo\<close> for what
  \<open>import cpuinfo; cpuinfo.get_cpu_info()\<close> does: it raises, or returns a dictionary
  (of which only list-valued entries matter here).
\<close>

record world =
  sys_platform :: string
  platform_machine :: string
  script_dir :: string
  environ :: "string \<rightharpoonup> string"
  cpuinfo :: "py_error + (string \<rightharpoonup> string list)"
  returncode :: "string \<Rightarrow> int"
  sha256_hexdigest :: "string \<Rightarrow> string"
  files_before_pull :: "string \<rightharpoonup> string"
  files_after_pull :: "string \<rightharpoonup> string"
  git_dir_exists :: bool
  cmd_flags_file :: "string option"
  extensions_listdir :: "string list option"
  extension_has_requirements :: "string \<Rightarrow> bool"
  torch_version :: "py_error + string"
  read_lines :: "string \<rightharpoonup> string list"
  openai_requirements_exists :: bool
  repositories_exists :: bool

definition is_linux :: "world \<Rightarrow> bool" where
  "is_linux w = startswith (sys_platform w) ''linux''"

definition is_windows :: "world \<Rightarrow> bool" where
  "is_windows w = startswith (sys_platform w) ''win''"

definition is_macos :: "world \<Rightarrow> bool" where
  "is_macos w = startswith (sys_platform w) ''darwin''"

definition is_x86_64 :: "world \<Rightarrow> bool" where
  "is_x86_64 w = (platform_machine w = ''x86_64'')"

text \<open>
  \<open>cpu_has_avx2\<close> and \<open>cpu_has_amx\<close>: the bare \<open>except\<close> catches the failed import,
  an exception of \<open>get_cpu_info\<close> and the \<open>KeyError\<close> of a missing \<open>'flags'\<close> entry.
\<close>

definition cpu_has_avx2 :: "world \<Rightarrow> bool" where
  "cpu_has_avx2 w =
     (case cpuinfo w of
        Inl e \<Rightarrow> True
      | Inr info \<Rightarrow>
          (case info ''flags'' of
             None \<Rightarrow> True
           | Some fl \<Rightarrow> if ''avx2'' \<in> set fl then True else False))"

definition cpu_has_amx :: "world \<Rightarrow> bool" where
  "cpu_has_amx w =
     (case cpuinfo w of
        Inl e \<Rightarrow> True
      | Inr info \<Rightarrow>
          (case info ''flags'' of
             None \<Rightarrow> True
           | Some fl \<Rightarrow> if ''amx'' \<in> set fl then True else False))"

section \<open>Selection of the requirements file\<close>

text \<open>The build flags that \<open>update_requirements\<close> derives from the framework version.\<close>

definition is_cuda :: "string \<Rightarrow> bool" where
  "is_cuda torver = str_in ''+cu'' torver"

definition is_cuda118 :: "string \<Rightarrow> bool" where
  "is_cuda118 torver = str_in ''+cu118'' torver"

definition is_rocm :: "string \<Rightarrow> bool" where
  "is_rocm torver = str_in ''+rocm'' torver"

definition is_intel :: "string \<Rightarrow> bool" where
  "is_intel torver = str_in ''+cxx11'' torver"

definition is_cpu :: "string \<Rightarrow> bool" where
  "is_cpu torver = str_in ''+cpu'' torver"

definition base_requirements :: "world \<Rightarrow> string \<Rightarrow> string" where
  "base_requirements w torver =
     (if is_rocm torver then
        ''requirements_amd'' @ (if \<not> cpu_has_avx2 w then ''_noavx2'' else '''') @ ''.txt''
      else if is_cpu torver \<or> is_intel torver then
        ''requirements_cpu_only'' @ (if \<not> cpu_has_avx2 w then ''_noavx2'' else '''') @ ''.txt''
      else if is_macos w then
        ''requirements_apple_'' @ (if is_x86_64 w then ''intel'' else ''silicon'') @ ''.txt''
      else
        ''requirements'' @ (if \<not> cpu_has_avx2 w then ''_noavx2'' else '''') @ ''.txt'')"

text \<open>
  The preparation of the requirements list: the rewrite of the accelerator suffixes for
  a CUDA 11.8 build, then the removal of the flash-attention lines on Windows.
\<close>

definition cu118_line :: "string \<Rightarrow> string" where
  "cu118_line req = replace (replace req ''+cu121'' ''+cu118'') ''+cu122'' ''+cu118''"

definition prepare_requirements :: "bool \<Rightarrow> bool \<Rightarrow> string list \<Rightarrow> string list" where
  "prepare_requirements windows cuda118 textgen_requirements =
     (let reqs1 = (if cuda118 then map cu118_line textgen_requirements
                   else textgen_requirements);
          reqs2 = (if windows \<and> cuda118
                   then filter (\<lambda>req. \<not> str_in ''jllllll/flash-attention'' req) reqs1
                   else reqs1)
      in reqs2)"

section \<open>Effects\<close>

text \<open>
  What the script does to its surroundings is recorded as a list of events, in order:
  a shell command handed to \<open>subprocess.run\<close>, a line printed, a prompt shown by
  \<open>input\<close>, text written to a file, a file removed, a directory created. A computation
  ends normally with a value, with \<open>sys.exit(n)\<close>, or with an uncaught exception.
\<close>

datatype event =
    Shell string
  | Print string
  | Prompt string
  | FileWrite string string
  | FileRemove string
  | MkDir string

datatype 'a outcome = Done 'a | Exit int | Raised py_error

type_synonym 'a io = "event list \<times> 'a outcome"

definition io_bind :: "'a io \<Rightarrow> ('a \<Rightarrow> 'b io) \<Rightarrow> 'b io" where
  "io_bind m f =
     (case m of
        (t, Done a) \<Rightarrow> (case f a of (t', r) \<Rightarrow> (t @ t', r))
      | (t, Exit n) \<Rightarrow> (t, Exit n)
      | (t, Raised e) \<Rightarrow> (t, Raised e))"

definition io_return :: "'a \<Rightarrow> 'a io" where
  "io_return a = ([], Done a)"

definition emit :: "event list \<Rightarrow> unit io" where
  "emit t = (t, Done ())"

fun io_for_each :: "'a list \<Rightarrow> ('a \<Rightarrow> unit io) \<Rightarrow> unit io" where
  "io_for_each [] f = io_return ()"
| "io_for_each (x # xs) f = io_bind (f x) (\<lambda>_. io_for_each xs f)"

text \<open>The shell commands of a trace, in the order they were issued.\<close>

fun commands_of :: "event list \<Rightarrow> string list" where
  "commands_of [] = []"
| "commands_of (Shell c # t) = c # commands_of t"
| "commands_of (e # t) = commands_of t"

text \<open>The lines printed in a trace, in order.\<close>

fun printed :: "event list \<Rightarrow> string list" where
  "printed [] = []"
| "printed (Print s # t) = s # printed t"
| "printed (e # t) = printed t"

abbreviation newline :: string where
  "newline \<equiv> [CHR 0x0A]"

abbreviation dquote :: string where
  "dquote \<equiv> [CHR 0x22]"

abbreviation squote :: string where
  "squote \<equiv> [CHR 0x27]"

definition print_big_message :: "string \<Rightarrow> event list" where
  "print_big_message message =
     (let message' = strip message;
          lines = split_char message' CHR 0x0A
      in [Print (newline @ newline @ replicate 67 CHR ''*'')]
         @ map (\<lambda>line. Print (''* '' @ line)) (filter (\<lambda>line. strip line \<noteq> '''') lines)
         @ [Print (replicate 67 CHR ''*'' @ newline @ newline)])"

text \<open>
  \<open>input(prompt)\<close> reads the next line of the standard input, given as the list of
  the lines still to come; at its end Python raises \<open>EOFError\<close>.
\<close>

definition input :: "string \<Rightarrow> string list \<Rightarrow> (string \<times> string list) io" where
  "input prompt stdin =
     (case stdin of
        [] \<Rightarrow> ([Prompt prompt], Raised EOFError)
      | l # ls \<Rightarrow> ([Prompt prompt], Done (l, ls)))"

text \<open>\<open>d[k]\<close> on a dictionary.\<close>

definition dict_get :: "('k \<rightharpoonup> 'v) \<Rightarrow> 'k \<Rightarrow> 'v io" where
  "dict_get d k = (case d k of None \<Rightarrow> ([], Raised KeyError) | Some v \<Rightarrow> io_return v)"

text \<open>\<open>{k: f(k) for k in keys}\<close>.\<close>

definition dict_of_keys :: "'k list \<Rightarrow> ('k \<Rightarrow> 'v) \<Rightarrow> ('k \<rightharpoonup> 'v)" where
  "dict_of_keys keys f = (\<lambda>k. if k \<in> set keys then Some (f k) else None)"

section \<open>Paths, fingerprints and shell commands\<close>

text \<open>
  \<open>os.path.join\<close> for a directory followed by relative names: a separator is put
  between two components unless the path so far is empty or already ends with one.
  \<open>script_dir\<close> is what \<open>os.getcwd()\<close> returned, an absolute directory.
\<close>

definition os_sep :: "world \<Rightarrow> char" where
  "os_sep w = (if is_windows w then CHR 0x5C else CHR ''/'')"

definition os_seps :: "world \<Rightarrow> char list" where
  "os_seps w = (if is_windows w then [CHR 0x5C, CHR ''/''] else [CHR ''/''])"

fun os_path_join :: "world \<Rightarrow> string \<Rightarrow> string list \<Rightarrow> string" where
  "os_path_join w path [] = path"
| "os_path_join w path (b # bs) =
     os_path_join w
       (if path = [] \<or> last path \<in> set (os_seps w) then path @ b
        else path @ [os_sep w] @ b) bs"

declare os_path_join.simps [simp del]

definition conda_env_path :: "world \<Rightarrow> string" where
  "conda_env_path w = os_path_join w (script_dir w) [''installer_files'', ''env'']"

definition cmd_flags_path :: "world \<Rightarrow> string" where
  "cmd_flags_path w = os_path_join w (script_dir w) [''CMD_FLAGS.txt'']"

text \<open>
  \<open>calculate_file_hash\<close>, on a snapshot of the script directory that maps the name of
  each regular file to its bytes.
\<close>

definition calculate_file_hash :: "world \<Rightarrow> (string \<rightharpoonup> string) \<Rightarrow> string \<Rightarrow> string" where
  "calculate_file_hash w files file_path =
     (case files file_path of
        Some bytes \<Rightarrow> sha256_hexdigest w bytes
      | None \<Rightarrow> '''')"

text \<open>
  \<open>run_cmd(cmd, assert_success, environment)\<close>. Its parameters \<open>capture_output\<close> and
  \<open>env\<close> change neither the command nor the use made of its exit status.
  \<open>in_environment\<close> is the command line that \<open>run_cmd\<close> builds when \<open>environment\<close>
  is set: the activation of the conda environment, then the command.
\<close>

definition in_environment :: "world \<Rightarrow> string \<Rightarrow> string" where
  "in_environment w cmd =
     (if is_windows w then
        (let conda_bat_path =
               os_path_join w (script_dir w)
                 [''installer_files'', ''conda'', ''condabin'', ''conda.bat'']
         in dquote @ conda_bat_path @ dquote @ '' activate '' @ dquote
            @ conda_env_path w @ dquote @ '' >nul && '' @ cmd)
      else
        (let conda_sh_path =
               os_path_join w (script_dir w)
                 [''installer_files'', ''conda'', ''etc'', ''profile.d'', ''conda.sh'']
         in ''. '' @ dquote @ conda_sh_path @ dquote @ '' && conda activate '' @ dquote
            @ conda_env_path w @ dquote @ '' && '' @ cmd))"

definition run_cmd :: "world \<Rightarrow> string \<Rightarrow> bool \<Rightarrow> bool \<Rightarrow> int io" where
  "run_cmd w cmd assert_success environment =
     (let cmd' = (if environment then in_environment w cmd else cmd);
          rc = returncode w cmd'
      in if assert_success \<and> rc \<noteq> 0 then
           ([Shell cmd',
             Print (''Command '' @ squote @ cmd' @ squote @ '' failed with exit status code ''
                    @ squote @ str_int rc @ squote @ ''.'' @ newline @ newline
                    @ ''Exiting now.'' @ newline
                    @ ''Try running the start/update script again.'')],
            Exit 1)
         else ([Shell cmd'], Done rc))"

definition clear_cache :: "world \<Rightarrow> unit io" where
  "clear_cache w =
     io_bind (run_cmd w ''conda clean -a -y'' False True) (\<lambda>_.
     io_bind (run_cmd w ''python -m pip cache purge'' False True) (\<lambda>_.
     io_return ()))"

definition truthy :: "string list" where
  "truthy = [''yes'', ''y'', ''true'', ''1'', ''t'', ''on'']"

section \<open>update_requirements\<close>

definition files_to_check :: "string list" where
  "files_to_check =
     [''start_linux.sh'', ''start_macos.sh'', ''start_windows.bat'', ''start_wsl.bat'',
      ''update_linux.sh'', ''update_macos.sh'', ''update_windows.bat'', ''update_wsl.bat'',
      ''one_click.py'']"

definition git_creation_cmd :: string where
  "git_creation_cmd = ''git init -b main && git remote add origin https://github.com/oobabooga/text-generation-webui && git fetch && git symbolic-ref refs/remotes/origin/HEAD refs/remotes/origin/main && git reset --hard origin/main && git branch --set-upstream-to=origin/main''"

text \<open>The loop that compares the two fingerprint dictionaries, file by file.\<close>

fun check_hashes :: "(string \<rightharpoonup> string) \<Rightarrow> (string \<rightharpoonup> string) \<Rightarrow> string list \<Rightarrow> unit io" where
  "check_hashes before_pull_hashes after_pull_hashes [] = io_return ()"
| "check_hashes before_pull_hashes after_pull_hashes (file_name # rest) =
     io_bind (dict_get before_pull_hashes file_name) (\<lambda>before.
     io_bind (dict_get after_pull_hashes file_name) (\<lambda>after.
       if before \<noteq> after then
         (print_big_message
            (''File '' @ squote @ file_name @ squote
             @ '' was updated during 'git pull'. Please run the script again.''),
          Exit 1)
       else check_hashes before_pull_hashes after_pull_hashes rest))"

text \<open>Lines 259 to 278: the checkout, the pull between two snapshots, the guard.\<close>

definition pull_and_check :: "world \<Rightarrow> unit io" where
  "pull_and_check w =
     io_bind (if \<not> git_dir_exists w
              then io_bind (run_cmd w git_creation_cmd True True) (\<lambda>_. io_return ())
              else io_return ()) (\<lambda>_.
     let before_pull_hashes =
           dict_of_keys files_to_check (calculate_file_hash w (files_before_pull w)) in
     io_bind (run_cmd w ''git pull --autostash'' True True) (\<lambda>_.
     let after_pull_hashes =
           dict_of_keys files_to_check (calculate_file_hash w (files_after_pull w)) in
     check_hashes before_pull_hashes after_pull_hashes files_to_check))"

definition skip :: "string list" where
  "skip = [''superbooga'', ''superboogav2'', ''coqui_tts'']"

text \<open>Lines 287 to 294: the requirements of the extensions, one command each.\<close>

definition install_extensions :: "world \<Rightarrow> unit io" where
  "install_extensions w =
     io_bind (emit (print_big_message ''Installing extensions requirements.'')) (\<lambda>_.
     case extensions_listdir w of
       None \<Rightarrow> ([], Raised FileNotFoundError)
     | Some listing \<Rightarrow>
         (let extensions = filter (extension_has_requirements w) listing;
              extensions' = filter (\<lambda>x. x \<notin> set skip) extensions
          in io_for_each (enumerate 0 extensions') (\<lambda>(i, extension).
               io_bind (emit [Print (newline @ newline @ ''--- ['' @ str_int (int i + 1) @ ''/''
                                     @ str_int (int (length extensions')) @ '']: '' @ extension
                                     @ newline @ newline)]) (\<lambda>_.
               let extension_req_path =
                     os_path_join w ''extensions'' [extension, ''requirements.txt''] in
               io_bind (run_cmd w (''python -m pip install -r '' @ extension_req_path
                                   @ '' --upgrade'') False True) (\<lambda>_.
               io_return ())))))"

text \<open>Lines 280 to 355: everything \<open>update_requirements\<close> does after the guard.\<close>

definition install_requirements :: "world \<Rightarrow> bool \<Rightarrow> unit io" where
  "install_requirements w initial_installation =
     (let install = (case environ w ''INSTALL_EXTENSIONS'' of
                       Some v \<Rightarrow> lower v \<in> set truthy
                     | None \<Rightarrow> initial_installation) in
      io_bind (if install then install_extensions w
               else if initial_installation then
                 emit (print_big_message
                   ''Will not install extensions due to INSTALL_EXTENSIONS environment variable.'')
               else io_return ()) (\<lambda>_.
      case torch_version w of
        Inl e \<Rightarrow> ([], Raised e)
      | Inr torver \<Rightarrow>
      let requirements_file = base_requirements w torver in
      io_bind (emit (print_big_message
                       (''Installing webui requirements from file: '' @ requirements_file)
                     @ [Print (''TORCH: '' @ torver @ newline)])) (\<lambda>_.
      case read_lines w requirements_file of
        None \<Rightarrow> ([], Raised FileNotFoundError)
      | Some lines \<Rightarrow>
          (let textgen_requirements =
                 prepare_requirements (is_windows w) (is_cuda118 torver) lines;
               git_requirements =
                 filter (\<lambda>req. startswith req ''git+'') textgen_requirements
           in
           io_bind (emit [FileWrite ''temp_requirements.txt''
                            (join newline textgen_requirements)]) (\<lambda>_.
           io_bind (io_for_each git_requirements (\<lambda>req.
                      let url = replace req ''git+'' '''';
                          package_name =
                            rstrip_chars
                              (hd (split_char (last (split_char url CHR ''/'')) CHR ''@''))
                              ''.git'' in
                      io_bind (run_cmd w (''python -m pip uninstall -y '' @ package_name)
                                 False True) (\<lambda>_.
                      emit [Print (''Uninstalled '' @ package_name)]))) (\<lambda>_.
           let extension_req_path =
                 os_path_join w ''extensions'' [''openai'', ''requirements.txt''] in
           io_bind (if openai_requirements_exists w then
                      io_bind (run_cmd w (''python -m pip install -r '' @ extension_req_path
                                          @ '' --upgrade'') False True) (\<lambda>_.
                      io_return ())
                    else io_return ()) (\<lambda>_.
           io_bind (run_cmd w ''python -m pip install -r temp_requirements.txt --upgrade''
                      True True) (\<lambda>_.
           io_bind (emit [FileRemove ''temp_requirements.txt'']) (\<lambda>_.
           io_bind (if \<not> (is_cuda torver \<or> is_rocm torver) then
                      io_bind (run_cmd w ''conda list -f pytorch-cuda | grep pytorch-cuda''
                                 False True) (\<lambda>rc.
                      io_return (rc = 1))
                    else io_return False) (\<lambda>no_accelerator.
           if no_accelerator then clear_cache w
           else
             io_bind (if \<not> repositories_exists w then emit [MkDir ''repositories'']
                      else io_return ()) (\<lambda>_.
             clear_cache w)))))))))))"

definition update_requirements :: "world \<Rightarrow> bool \<Rightarrow> unit io" where
  "update_requirements w initial_installation =
     io_bind (pull_and_check w) (\<lambda>_. install_requirements w initial_installation)"

section \<open>install_webui\<close>

text \<open>
  Lines 184 to 187: the loop that asks again while \<open>choice not in 'ABCDN'\<close>. The first
  argument is the current \<open>choice\<close>, the second the input lines still to come.
\<close>

fun gpu_choice_loop :: "string \<Rightarrow> string list \<Rightarrow> (string \<times> string list) io" where
  "gpu_choice_loop choice stdin =
     (if \<not> str_in choice ''ABCDN'' then
        (case stdin of
           [] \<Rightarrow> ([Print ''Invalid choice. Please try again.'', Prompt ''Input> ''],
                  Raised EOFError)
         | l # ls \<Rightarrow>
             (case gpu_choice_loop (upper l) ls of
                (t, r) \<Rightarrow>
                  (Print ''Invalid choice. Please try again.'' # Prompt ''Input> '' # t, r)))
      else io_return (choice, stdin))"

declare gpu_choice_loop.simps [simp del]

text \<open>Lines 174 to 182: the menu, one \<open>print\<close> per line.\<close>

definition gpu_menu :: "event list" where
  "gpu_menu =
     [Print '''', Print ''What is your GPU?'', Print '''',
      Print ''A) NVIDIA'',
      Print ''B) AMD (Linux/MacOS only. Requires ROCm SDK 5.6 on Linux)'',
      Print ''C) Apple M Series'',
      Print ''D) Intel Arc (IPEX)'',
      Print ''N) None (I want to run models in CPU mode)'',
      Print '''']"

text \<open>Lines 170 to 187: the choice comes from \<open>GPU_CHOICE\<close> or from the menu.\<close>

definition read_gpu_choice :: "world \<Rightarrow> string list \<Rightarrow> (string \<times> string list) io" where
  "read_gpu_choice w stdin =
     (case environ w ''GPU_CHOICE'' of
        Some v \<Rightarrow>
          (let choice = upper v in
           io_bind (emit (print_big_message
                            (''Selected GPU choice '' @ dquote @ choice @ dquote
                             @ '' based on the GPU_CHOICE environment variable.''))) (\<lambda>_.
           io_return (choice, stdin)))
      | None \<Rightarrow>
          io_bind (emit gpu_menu) (\<lambda>_.
          io_bind (input ''Input> '' stdin) (\<lambda>(l, ls).
          gpu_choice_loop (upper l) ls)))"

definition gpu_choice_to_name :: "string \<rightharpoonup> string" where
  "gpu_choice_to_name =
     [''A'' \<mapsto> ''NVIDIA'', ''B'' \<mapsto> ''AMD'', ''C'' \<mapsto> ''APPLE'', ''D'' \<mapsto> ''INTEL'',
      ''N'' \<mapsto> ''NONE'']"

text \<open>Line 197: the name is looked up under the constant key, whatever the choice.\<close>

definition selected_gpu_of :: "string \<Rightarrow> string io" where
  "selected_gpu_of choice = dict_get gpu_choice_to_name ''A''"

text \<open>Lines 216 to 219: the answer to the CUDA question, asked again while it is
  \<open>not in 'YN'\<close>.\<close>

definition clean_answer :: "string \<Rightarrow> string" where
  "clean_answer l = strip (strip_chars (upper l) (dquote @ squote))"

fun use_cuda118_loop :: "string \<Rightarrow> string list \<Rightarrow> (string \<times> string list) io" where
  "use_cuda118_loop use_cuda118 stdin =
     (if \<not> str_in use_cuda118 ''YN'' then
        (case stdin of
           [] \<Rightarrow> ([Print ''Invalid choice. Please try again.'', Prompt ''Input> ''],
                  Raised EOFError)
         | l # ls \<Rightarrow>
             (case use_cuda118_loop (clean_answer l) ls of
                (t, r) \<Rightarrow>
                  (Print ''Invalid choice. Please try again.'' # Prompt ''Input> '' # t, r)))
      else io_return (use_cuda118, stdin))"

declare use_cuda118_loop.simps [simp del]

definition install_pytorch_default :: string where
  "install_pytorch_default =
     ''python -m pip install torch==2.1.* torchvision==0.16.* torchaudio==2.1.* ''"

text \<open>
  Lines 209 to 236: the value of \<open>use_cuda118\<close> and the framework install command, for
  the selected GPU on this host; the third component is the input still to come.
\<close>

definition select_pytorch ::
    "world \<Rightarrow> string \<Rightarrow> string list \<Rightarrow> (string \<times> string \<times> string list) io" where
  "select_pytorch w selected_gpu stdin =
     (let install_pytorch = install_pytorch_default in
      if (is_windows w \<or> is_linux w) \<and> selected_gpu = ''NVIDIA'' then
        io_bind
          (case environ w ''USE_CUDA118'' of
             Some v \<Rightarrow> io_return (if lower v \<in> set truthy then ''Y'' else ''N'', stdin)
           | None \<Rightarrow>
               io_bind (emit [Print (newline @ ''Do you want to use CUDA 11.8 instead of 12.1? Only choose this option if your GPU is very old (Kepler or older).'' @ newline
                                     @ ''For RTX and GTX series GPUs, say '' @ dquote @ ''N''
                                     @ dquote @ ''. If unsure, say '' @ dquote @ ''N'' @ dquote
                                     @ ''.'' @ newline)]) (\<lambda>_.
               io_bind (input ''Input (Y/N)> '' stdin) (\<lambda>(l, ls).
               use_cuda118_loop (clean_answer l) ls)))
          (\<lambda>(use_cuda118, stdin').
             if use_cuda118 = ''Y'' then
               io_bind (emit [Print ''CUDA: 11.8'']) (\<lambda>_.
               io_return (use_cuda118,
                          install_pytorch @ ''--index-url https://download.pytorch.org/whl/cu118'',
                          stdin'))
             else
               io_bind (emit [Print ''CUDA: 12.1'']) (\<lambda>_.
               io_return (use_cuda118,
                          install_pytorch @ ''--index-url https://download.pytorch.org/whl/cu121'',
                          stdin')))
      else if \<not> is_macos w \<and> selected_gpu = ''AMD'' then
        (if is_linux w then
           io_return (''N'',
                      install_pytorch @ ''--index-url https://download.pytorch.org/whl/rocm5.6'',
                      stdin)
         else ([Print ''AMD GPUs are only supported on Linux. Exiting...''], Exit 1))
      else if is_linux w \<and> selected_gpu \<in> set [''APPLE'', ''NONE''] then
        io_return (''N'',
                   install_pytorch @ ''--index-url https://download.pytorch.org/whl/cpu'',
                   stdin)
      else if selected_gpu = ''INTEL'' then
        io_return (''N'',
                   ''python -m pip install torch==2.1.0a0 torchvision==0.16.0a0 torchaudio==2.1.0a0 intel-extension-for-pytorch==2.1.10 --extra-index-url https://pytorch-extension.intel.com/release-whl/stable/xpu/us/'',
                   stdin)
      else io_return (''N'', install_pytorch, stdin))"

text \<open>Lines 199 to 253: the installation steps for the selected GPU.\<close>

definition install_framework :: "world \<Rightarrow> string \<Rightarrow> string list \<Rightarrow> unit io" where
  "install_framework w selected_gpu stdin =
     io_bind (if selected_gpu = ''NONE'' then
                (case cmd_flags_file w of
                   None \<Rightarrow> ([], Raised FileNotFoundError)
                 | Some content \<Rightarrow>
                     if \<not> str_in ''--cpu'' content then
                       emit (print_big_message ''Adding the --cpu flag to CMD_FLAGS.txt.''
                             @ [FileWrite (cmd_flags_path w) (newline @ ''--cpu'')])
                     else io_return ())
              else io_return ()) (\<lambda>_.
     let install_git = ''conda install -y -k ninja git'' in
     io_bind (select_pytorch w selected_gpu stdin) (\<lambda>(use_cuda118, install_pytorch, stdin').
     io_bind (emit (print_big_message ''Installing PyTorch.'')) (\<lambda>_.
     io_bind (run_cmd w (install_git @ '' && '' @ install_pytorch
                         @ '' && python -m pip install py-cpuinfo==9.0.0'') True True) (\<lambda>_.
     io_bind (if selected_gpu = ''NVIDIA'' then
                io_bind (emit (print_big_message ''Installing the CUDA runtime libraries.'')) (\<lambda>_.
                io_bind (run_cmd w (''conda install -y -c '' @ dquote @ ''nvidia/label/''
                                    @ (if use_cuda118 = ''N'' then ''cuda-12.1.1''
                                       else ''cuda-11.8.0'')
                                    @ dquote @ '' cuda-runtime'') True True) (\<lambda>_.
                io_return ()))
              else io_return ()) (\<lambda>_.
     if selected_gpu = ''INTEL'' then
       io_bind (emit (print_big_message ''Installing Intel oneAPI runtime libraries.'')) (\<lambda>_.
       io_bind (run_cmd w ''conda install -y -c intel dpcpp-cpp-rt=2024.0 mkl-dpcpp=2024.0''
                  False False) (\<lambda>_.
       io_bind (run_cmd w ''conda install -y libuv'' False False) (\<lambda>_.
       io_return ())))
     else io_return ())))))"

definition install_webui :: "world \<Rightarrow> string list \<Rightarrow> unit io" where
  "install_webui w stdin =
     io_bind (read_gpu_choice w stdin) (\<lambda>(choice, stdin').
     io_bind (selected_gpu_of choice) (\<lambda>selected_gpu.
     io_bind (install_framework w selected_gpu stdin') (\<lambda>_.
     update_requirements w True)))"

section \<open>Notions used in the statements\<close>

text \<open>
  A version string of a Python package has at most one local-version separator \<open>+\<close>
  (PEP 440: the public version, then optionally \<open>+\<close> and a label of letters, digits
  and dots), as in \<open>2.1.0+cu118\<close> or \<open>2.0.1+rocm5.4.2\<close>.
\<close>

definition well_formed_version :: "string \<Rightarrow> bool" where
  "well_formed_version v = (count_list v CHR ''+'' \<le> 1)"

text \<open>A tracked file whose fingerprint before the pull differs from the one after it.\<close>

definition changed :: "world \<Rightarrow> string \<Rightarrow> bool" where
  "changed w file_name =
     (calculate_file_hash w (files_before_pull w) file_name
      \<noteq> calculate_file_hash w (files_after_pull w) file_name)"

text \<open>The message that the guard of \<open>update_requirements\<close> prints for a file.\<close>

definition guard_message :: "string \<Rightarrow> string" where
  "guard_message file_name =
     ''File '' @ squote @ file_name @ squote
     @ '' was updated during 'git pull'. Please run the script again.''"

text \<open>
  Example hosts. The digest is a stand-in that, like a collision-free hash, sends
  different contents to different non-empty strings.
\<close>

definition linux_host :: world where
  "linux_host =
     \<lparr> sys_platform = ''linux'',
       platform_machine = ''x86_64'',
       script_dir = ''/opt/webui'',
       environ = Map.empty,
       cpuinfo = Inr [''flags'' \<mapsto> [''sse4_2'', ''avx'', ''avx2'']],
       returncode = (\<lambda>cmd. 0),
       sha256_hexdigest = (\<lambda>bytes. ''sha256:'' @ bytes),
       files_before_pull = [''start_linux.sh'' \<mapsto> ''exec python one_click.py'',
                            ''one_click.py'' \<mapsto> ''import os''],
       files_after_pull = [''start_linux.sh'' \<mapsto> ''exec python one_click.py'',
                           ''one_click.py'' \<mapsto> ''import os''],
       git_dir_exists = True,
       cmd_flags_file = Some '''',
       extensions_listdir = Some [''openai'', ''superbooga''],
       extension_has_requirements = (\<lambda>foldername. True),
       torch_version = Inr ''2.1.0+cu121'',
       read_lines = [''requirements.txt'' \<mapsto> [''accelerate==0.25.*'', ''numpy==1.24.*'']],
       openai_requirements_exists = True,
       repositories_exists = False \<rparr>"

definition macos_host :: world where
  "macos_host =
     linux_host \<lparr> sys_platform := ''darwin'', platform_machine := ''arm64'',
                  torch_version := Inr ''2.1.0'' \<rparr>"

definition windows_host :: world where
  "windows_host =
     linux_host \<lparr> sys_platform := ''win32'', platform_machine := ''AMD64'',
                  script_dir := ''C:'' @ [CHR 0x5C] @ ''webui'' \<rparr>"

text \<open>A host on which the pull replaces \<open>one_click.py\<close>.\<close>

definition stale_host :: world where
  "stale_host =
     linux_host \<lparr> files_after_pull := [''start_linux.sh'' \<mapsto> ''exec python one_click.py'',
                                       ''one_click.py'' \<mapsto> ''import sys''] \<rparr>"

text \<open>A host on which the pull replaces two tracked files.\<close>

definition twice_stale_host :: world where
  "twice_stale_host =
     linux_host \<lparr> files_after_pull := [''start_linux.sh'' \<mapsto> ''exec python3 one_click.py'',
                                       ''one_click.py'' \<mapsto> ''import sys''] \<rparr>"

text \<open>A host whose CPU reports no AVX2, and one without the \<open>cpuinfo\<close> module.\<close>

definition old_cpu_host :: world where
  "old_cpu_host = linux_host \<lparr> cpuinfo := Inr [''flags'' \<mapsto> [''sse4_2'', ''avx'']] \<rparr>"

definition no_cpuinfo_host :: world where
  "no_cpuinfo_host = linux_host \<lparr> cpuinfo := Inl ImportError \<rparr>"

section \<open>Facts about the string operations\<close>

lemma str_in_sublist: "str_in sub s \<longleftrightarrow> sublist sub s"
  by (induction s) (auto simp: sublist_Cons_right)

lemma str_in_Nil [simp]: "str_in [] s"
  by (cases s) auto

lemma str_in_imp_hd_mem: "str_in (h # ps) s \<Longrightarrow> h \<in> set s"
  by (induction s) auto

lemma str_in_append_skip:
  "h \<notin> set ns \<Longrightarrow> str_in (h # qs) (ns @ r) \<Longrightarrow> str_in (h # qs) r"
  by (induction ns) auto

lemma str_in_drop: "str_in sub (drop n s) \<Longrightarrow> str_in sub s"
  unfolding str_in_sublist
  using sublist_drop sublist_order.order_trans by blast

lemma replace_absent: "old \<noteq> [] \<Longrightarrow> \<not> str_in old s \<Longrightarrow> replace s old new = s"
  by (induction s old new rule: replace.induct) auto

lemma prefix_replace_head_free:
  "h \<notin> set X \<Longrightarrow> prefix X (replace s (h # ps) (h # ns)) \<Longrightarrow> prefix X s"
proof (induction X arbitrary: s)
  case Nil
  then show ?case by simp
next
  case (Cons x X)
  note prems = Cons.prems and IH = Cons.IH
  show ?case
  proof (cases s)
    case Nil
    with prems show ?thesis by simp
  next
    case (Cons c cs)
    with prems IH [of cs] show ?thesis
      by (auto split: if_splits)
  qed
qed

lemma replace_no_new_occurrence:
  assumes "h \<notin> set qs" "h \<notin> set ns" "\<not> prefix qs ns" "\<not> prefix ns qs"
  shows "old = h # ps \<Longrightarrow> new = h # ns \<Longrightarrow> str_in (h # qs) (replace s old new)
    \<Longrightarrow> str_in (h # qs) s"
proof (induction s old new rule: replace.induct)
  case (1 s new)
  then show ?case by simp
next
  case (2 p ps' new)
  then show ?case by simp
next
  case (3 c cs p ps' new)
  let ?rest = "replace (drop (length (p # ps')) (c # cs)) (p # ps') new"
  show ?case
  proof (cases "prefix (p # ps') (c # cs)")
    case True
    with 3 have "str_in (h # qs) ((h # ns) @ ?rest)"
      by simp
    then have "str_in (h # qs) (ns @ ?rest)"
      using assms by (auto simp: prefix_append)
    then have "str_in (h # qs) ?rest"
      using assms(2) str_in_append_skip by blast
    with 3 True have "str_in (h # qs) (drop (length (p # ps')) (c # cs))" by blast
    then show ?thesis by (rule str_in_drop)
  next
    case False
    with 3 assms(1) show ?thesis
      by (auto dest: prefix_replace_head_free)
  qed
qed

lemma replace_removes_all:
  assumes "h \<notin> set ps" "h \<notin> set ns" "\<not> prefix ps ns" "\<not> prefix ns ps"
  shows "old = h # ps \<Longrightarrow> new = h # ns \<Longrightarrow> \<not> str_in old (replace s old new)"
proof (induction s old new rule: replace.induct)
  case (1 s new)
  then show ?case by simp
next
  case (2 p ps' new)
  then show ?case by simp
next
  case (3 c cs p ps' new)
  let ?rest = "replace (drop (length (p # ps')) (c # cs)) (p # ps') new"
  show ?case
  proof (cases "prefix (p # ps') (c # cs)")
    case True
    with 3 have "\<not> str_in (h # ps) ?rest" by simp
    then have "\<not> str_in (h # ps) ((h # ns) @ ?rest)"
      using assms str_in_append_skip [of h ns ps]
      by (auto simp: prefix_append)
    with True 3 show ?thesis by simp
  next
    case False
    with 3 assms(1) show ?thesis
      by (auto dest: prefix_replace_head_free)
  qed
qed

lemma length_replace_same:
  "length new = length old \<Longrightarrow> length (replace s old new) = length s"
proof (induction s old new rule: replace.induct)
  case (1 s new)
  then show ?case by simp
next
  case (2 p ps new)
  then show ?case by simp
next
  case (3 c cs p ps new)
  then show ?case by (auto simp: prefix_def)
qed

lemma map_blur_replace:
  "map f new = map f old \<Longrightarrow> old \<noteq> [] \<Longrightarrow> map f (replace s old new) = map f s"
proof (induction s old new rule: replace.induct)
  case (1 s new)
  then show ?case by simp
next
  case (2 p ps new)
  then show ?case by simp
next
  case (3 c cs p ps new)
  show ?case
  proof (cases "prefix (p # ps) (c # cs)")
    case True
    then obtain r where r: "c # cs = (p # ps) @ r" by (auto simp: prefix_def)
    then have d: "drop (length (p # ps)) (c # cs) = r" by (metis append_eq_conv_conj)
    from 3(1) [OF True] 3(3) have "map f (replace r (p # ps) new) = map f r"
      using d by simp
    moreover have "replace (c # cs) (p # ps) new = new @ replace r (p # ps) new"
      using True d by (simp del: drop_Suc_Cons length_Cons list.size)
    ultimately show ?thesis
      using 3(3) r by (metis map_append)
  next
    case False
    with 3 show ?thesis by auto
  qed
qed

lemma prefix_map_blur:
  assumes "\<And>x. x \<in> set pat \<Longrightarrow> f x = x" and "\<And>c. f c \<in> set pat \<Longrightarrow> f c = c"
  shows "prefix pat (map f t) \<longleftrightarrow> prefix pat t"
  using assms
proof (induction pat arbitrary: t)
  case Nil
  then show ?case by simp
next
  case (Cons x xs)
  show ?case
  proof (cases t)
    case Nil
    then show ?thesis by simp
  next
    case (Cons c cs)
    have "prefix xs (map f cs) \<longleftrightarrow> prefix xs cs"
      using Cons.IH Cons.prems by simp
    moreover have "f c = x \<longleftrightarrow> c = x"
      using Cons.prems(1) [of x] Cons.prems(2) [of c] by auto
    ultimately show ?thesis using Cons by auto
  qed
qed

lemma str_in_map_blur:
  assumes "\<And>x. x \<in> set pat \<Longrightarrow> f x = x" and "\<And>c. f c \<in> set pat \<Longrightarrow> f c = c"
  shows "str_in pat (map f t) \<longleftrightarrow> str_in pat t"
proof (induction t)
  case Nil
  then show ?case by simp
next
  case (Cons c cs)
  have "prefix pat (map f (c # cs)) \<longleftrightarrow> prefix pat (c # cs)"
    using assms by (rule prefix_map_blur)
  with Cons show ?case by simp
qed

lemma str_in_replace_disjoint:
  assumes "set pat \<inter> (set old \<union> set new) = {}" "length new = length old" "old \<noteq> []"
  shows "str_in pat (replace s old new) \<longleftrightarrow> str_in pat s"
proof -
  define f where "f = (\<lambda>c. if c \<in> set old \<union> set new then hd old else c)"
  have stays: "\<And>x. x \<in> set pat \<Longrightarrow> f x = x"
    using assms(1) by (auto simp: f_def)
  have only: "\<And>c. f c \<in> set pat \<Longrightarrow> f c = c"
    using assms(1,3) by (auto simp: f_def split: if_splits)
  have "map f new = replicate (length new) (hd old)"
    by (auto simp: f_def map_replicate_const [symmetric] intro!: map_cong)
  moreover have "map f old = replicate (length old) (hd old)"
    by (auto simp: f_def map_replicate_const [symmetric] intro!: map_cong)
  ultimately have "map f new = map f old" using assms(2) by simp
  then have "map f (replace s old new) = map f s"
    using assms(3) by (rule map_blur_replace)
  then have "str_in pat (map f (replace s old new)) \<longleftrightarrow> str_in pat (map f s)" by simp
  then show ?thesis using str_in_map_blur [of pat f, OF stays only] by simp
qed

section \<open>The rewrite of the accelerator suffixes\<close>

lemma cu118_line_no_cu121: "\<not> str_in ''+cu121'' (cu118_line req)"
proof
  assume "str_in ''+cu121'' (cu118_line req)"
  then have "str_in ''+cu121'' (replace req ''+cu121'' ''+cu118'')"
    unfolding cu118_line_def
    using replace_no_new_occurrence [of "CHR ''+''" "''cu121''" "''cu118''" "''+cu122''"
        "''cu122''" "''+cu118''" "replace req ''+cu121'' ''+cu118''"]
    by simp
  moreover have "\<not> str_in ''+cu121'' (replace req ''+cu121'' ''+cu118'')"
    using replace_removes_all [of "CHR ''+''" "''cu121''" "''cu118''" "''+cu121''" "''+cu118''"]
    by simp
  ultimately show False by simp
qed

lemma cu118_line_no_cu122: "\<not> str_in ''+cu122'' (cu118_line req)"
  unfolding cu118_line_def
  using replace_removes_all [of "CHR ''+''" "''cu122''" "''cu118''" "''+cu122''" "''+cu118''"]
  by simp

lemma cu118_line_unchanged:
  "\<not> str_in ''+cu121'' req \<Longrightarrow> \<not> str_in ''+cu122'' req \<Longrightarrow> cu118_line req = req"
  by (simp add: cu118_line_def replace_absent)

lemma cu118_line_idem: "cu118_line (cu118_line req) = cu118_line req"
  by (rule cu118_line_unchanged [OF cu118_line_no_cu121 cu118_line_no_cu122])

lemma length_cu118_line: "length (cu118_line req) = length req"
  by (simp add: cu118_line_def length_replace_same)

lemma flash_cu118_line:
  "str_in ''jllllll/flash-attention'' (cu118_line req) \<longleftrightarrow> str_in ''jllllll/flash-attention'' req"
  unfolding cu118_line_def
  by (simp add: str_in_replace_disjoint)

lemma replace_append_head:
  assumes "h \<notin> set ps" "y = [] \<or> hd y = h"
  shows "old = h # ps \<Longrightarrow> replace (x @ y) old new = replace x old new @ replace y old new"
proof (induction x old new rule: replace.induct)
  case (1 s new)
  then show ?case by simp
next
  case (2 p ps' new)
  then show ?case by simp
next
  case (3 c cs p ps' new)
  show ?case
  proof (cases "prefix (p # ps') (c # cs)")
    case True
    then obtain r where r: "c # cs = (p # ps') @ r" by (auto simp: prefix_def)
    then have d: "drop (length (p # ps')) (c # cs) = r" by (metis append_eq_conv_conj)
    have d': "drop (length (p # ps')) ((c # cs) @ y) = r @ y"
      using r by (metis append.assoc append_eq_conv_conj)
    have pre: "prefix (p # ps') ((c # cs) @ y)"
      using True by (metis prefix_prefix)
    have "replace ((c # cs) @ y) (p # ps') new = new @ replace (r @ y) (p # ps') new"
      using pre d' by (simp del: drop_Suc_Cons length_Cons list.size)
    moreover have "replace (c # cs) (p # ps') new = new @ replace r (p # ps') new"
      using True d by (simp del: drop_Suc_Cons length_Cons list.size)
    moreover have "replace (r @ y) (p # ps') new = replace r (p # ps') new @ replace y (p # ps') new"
      using 3(1) [OF True] 3(3) d by simp
    ultimately show ?thesis by simp
  next
    case False
    have np: "\<not> prefix (p # ps') (c # (cs @ y))"
    proof
      assume "prefix (p # ps') (c # (cs @ y))"
      then have "prefix (p # ps') ((c # cs) @ y)" by simp
      with False obtain us where us: "p # ps' = (c # cs) @ us" "prefix us y"
        by (auto simp: prefix_append)
      with False have "us \<noteq> []" by auto
      with us(2) assms(2) have "hd us = h" by (cases us; cases y) auto
      with \<open>us \<noteq> []\<close> have "h \<in> set us" by (cases us) auto
      with us(1) have "h \<in> set ps'" by auto
      with 3(3) assms(1) show False by simp
    qed
    have "replace (c # (cs @ y)) (p # ps') new = c # replace (cs @ y) (p # ps') new"
      using np by (subst replace.simps(3)) (simp only: if_False)
    moreover have "replace (c # cs) (p # ps') new = c # replace cs (p # ps') new"
      using False by (subst replace.simps(3)) (simp only: if_False)
    moreover have "replace (cs @ y) (p # ps') new = replace cs (p # ps') new @ replace y (p # ps') new"
      using 3(2) [OF False] 3(3) by simp
    ultimately show ?thesis by simp
  qed
qed

lemma replace_skip:
  "h \<notin> set ns \<Longrightarrow> replace (ns @ z) (h # ps) new = ns @ replace z (h # ps) new"
  by (induction ns) auto

lemma cu118_line_cu121:
  "cu118_line (a @ ''+cu121'' @ b) = cu118_line a @ ''+cu118'' @ cu118_line b"
proof -
  let ?r1 = "\<lambda>s. replace s ''+cu121'' ''+cu118''"
  let ?r2 = "\<lambda>s. replace s ''+cu122'' ''+cu118''"
  have "?r1 (a @ ''+cu121'' @ b) = ?r1 a @ ?r1 (''+cu121'' @ b)"
    using replace_append_head [of "CHR ''+''" "''cu121''" "''+cu121'' @ b" "''+cu121''" a]
    by simp
  also have "?r1 (''+cu121'' @ b) = ''+cu118'' @ ?r1 b" by simp
  finally have 1: "?r1 (a @ ''+cu121'' @ b) = ?r1 a @ ''+cu118'' @ ?r1 b" .
  have "?r2 (?r1 a @ ''+cu118'' @ ?r1 b) = ?r2 (?r1 a) @ ?r2 (''+cu118'' @ ?r1 b)"
    using replace_append_head [of "CHR ''+''" "''cu122''" "''+cu118'' @ ?r1 b" "''+cu122''" "?r1 a"]
    by simp
  also have "?r2 (''+cu118'' @ ?r1 b) = ''+cu118'' @ ?r2 (?r1 b)"
    using replace_skip [of "CHR ''+''" "''cu118''" "?r1 b" "''cu122''" "''+cu118''"] by simp
  finally show ?thesis using 1 by (simp add: cu118_line_def)
qed

lemma cu118_line_cu122:
  "cu118_line (a @ ''+cu122'' @ b) = cu118_line a @ ''+cu118'' @ cu118_line b"
proof -
  let ?r1 = "\<lambda>s. replace s ''+cu121'' ''+cu118''"
  let ?r2 = "\<lambda>s. replace s ''+cu122'' ''+cu118''"
  have "?r1 (a @ ''+cu122'' @ b) = ?r1 a @ ?r1 (''+cu122'' @ b)"
    using replace_append_head [of "CHR ''+''" "''cu121''" "''+cu122'' @ b" "''+cu121''" a]
    by simp
  also have "?r1 (''+cu122'' @ b) = ''+cu122'' @ ?r1 b"
    using replace_skip [of "CHR ''+''" "''cu122''" "b" "''cu121''" "''+cu118''"] by simp
  finally have 1: "?r1 (a @ ''+cu122'' @ b) = ?r1 a @ ''+cu122'' @ ?r1 b" .
  have "?r2 (?r1 a @ ''+cu122'' @ ?r1 b) = ?r2 (?r1 a) @ ?r2 (''+cu122'' @ ?r1 b)"
    using replace_append_head [of "CHR ''+''" "''cu122''" "''+cu122'' @ ?r1 b" "''+cu122''" "?r1 a"]
    by simp
  also have "?r2 (''+cu122'' @ ?r1 b) = ''+cu118'' @ ?r2 (?r1 b)" by simp
  finally show ?thesis using 1 by (simp add: cu118_line_def)
qed

section \<open>The build flags of a version string\<close>

lemma two_markers:
  assumes "h \<notin> set X" "h \<notin> set Y"
  shows "count_list v h \<le> 1 \<Longrightarrow> str_in (h # X) v \<Longrightarrow> str_in (h # Y) v \<Longrightarrow> prefix X Y \<or> prefix Y X"
proof (induction v)
  case Nil
  then show ?case by simp
next
  case (Cons c cs)
  have absent: "\<And>Z. c = h \<Longrightarrow> \<not> str_in (h # Z) cs"
  proof
    fix Z assume "c = h" "str_in (h # Z) cs"
    then have "h \<in> set cs" by (auto dest: str_in_imp_hd_mem)
    then have "count_list cs h \<noteq> 0" by (simp add: count_list_0_iff)
    with Cons.prems(1) \<open>c = h\<close> show False by simp
  qed
  show ?case
  proof (cases "c = h")
    case True
    with Cons.prems absent have "prefix X cs" "prefix Y cs" by auto
    then show ?thesis by (rule prefix_same_cases)
  next
    case False
    with Cons show ?thesis by (auto split: if_splits)
  qed
qed

text \<open>
  Claim C8. For a well-formed version string at most one of \<open>is_cuda\<close>,
  \<open>is_rocm\<close>, \<open>is_intel\<close> and \<open>is_cpu\<close> holds; in particular a \<open>+cpu\<close> build is
  not taken for a CUDA build.
\<close>

theorem build_flags_exclusive:
  assumes "well_formed_version torver"
  shows "length (filter (\<lambda>b. b) [is_cuda torver, is_rocm torver, is_intel torver, is_cpu torver]) \<le> 1
    \<and> (is_cpu torver \<longrightarrow> \<not> is_cuda torver)"
proof -
  have wf: "count_list torver CHR ''+'' \<le> 1" using assms by (simp add: well_formed_version_def)
  have 1: "\<not> (is_cuda torver \<and> is_rocm torver)"
    using two_markers [OF _ _ wf, of "''cu''" "''rocm''"] by (auto simp: is_cuda_def is_rocm_def)
  have 2: "\<not> (is_cuda torver \<and> is_intel torver)"
    using two_markers [OF _ _ wf, of "''cu''" "''cxx11''"] by (auto simp: is_cuda_def is_intel_def)
  have 3: "\<not> (is_cuda torver \<and> is_cpu torver)"
    using two_markers [OF _ _ wf, of "''cu''" "''cpu''"] by (auto simp: is_cuda_def is_cpu_def)
  have 4: "\<not> (is_rocm torver \<and> is_intel torver)"
    using two_markers [OF _ _ wf, of "''rocm''" "''cxx11''"] by (auto simp: is_rocm_def is_intel_def)
  have 5: "\<not> (is_rocm torver \<and> is_cpu torver)"
    using two_markers [OF _ _ wf, of "''rocm''" "''cpu''"] by (auto simp: is_rocm_def is_cpu_def)
  have 6: "\<not> (is_intel torver \<and> is_cpu torver)"
    using two_markers [OF _ _ wf, of "''cxx11''" "''cpu''"] by (auto simp: is_intel_def is_cpu_def)
  from 1 2 3 4 5 6 show ?thesis by auto
qed

section \<open>The GPU prompt\<close>

lemma gpu_accept_iff:
  "(gpu_choice_loop choice stdin = ([], Done (choice, stdin))) \<longleftrightarrow> str_in choice ''ABCDN''"
  by (subst gpu_choice_loop.simps) (auto simp: io_return_def split: list.splits prod.splits)

lemma str_in_ABCDN:
  "str_in choice ''ABCDN'' \<longleftrightarrow> choice \<in> set ['''', ''A'', ''B'', ''C'', ''D'', ''N'', ''AB'', ''BC'', ''CD'', ''DN'',
       ''ABC'', ''BCD'', ''CDN'', ''ABCD'', ''BCDN'', ''ABCDN'']"
  by (auto simp: prefix_Cons)

section \<open>Facts about effects\<close>

lemma io_bind_Done [simp]: "io_bind (t, Done a) f = (t @ fst (f a), snd (f a))"
  by (simp add: io_bind_def split_beta)

lemma io_bind_Exit [simp]: "io_bind (t, Exit n) f = (t, Exit n)"
  by (simp add: io_bind_def)

lemma io_bind_Raised [simp]: "io_bind (t, Raised e) f = (t, Raised e)"
  by (simp add: io_bind_def)

lemma io_bind_return [simp]: "io_bind (io_return a) f = f a"
  by (simp add: io_return_def)

lemma io_bind_emit [simp]: "io_bind (emit t) f = (t @ fst (f ()), snd (f ()))"
  by (simp add: emit_def)

lemma io_return_parts [simp]: "fst (io_return a) = []" "snd (io_return a) = Done a"
  by (simp_all add: io_return_def)

lemma emit_parts [simp]: "fst (emit t) = t" "snd (emit t) = Done ()"
  by (simp_all add: emit_def)

lemma io_bind_cases:
  "io_bind m f =
     (case snd m of
        Done a \<Rightarrow> (fst m @ fst (f a), snd (f a))
      | Exit n \<Rightarrow> (fst m, Exit n)
      | Raised e \<Rightarrow> (fst m, Raised e))"
  by (cases m) (auto simp: io_bind_def split_beta split: outcome.splits)

lemma commands_of_append [simp]: "commands_of (t @ u) = commands_of t @ commands_of u"
  by (induction t rule: commands_of.induct) auto

lemma printed_append [simp]: "printed (t @ u) = printed t @ printed u"
  by (induction t rule: printed.induct) auto

lemma commands_of_map_Print [simp]: "commands_of (map (\<lambda>x. Print (g x)) xs) = []"
  by (induction xs) auto

lemma commands_of_print_big_message [simp]: "commands_of (print_big_message m) = []"
  by (simp add: print_big_message_def Let_def)

lemma split_char_no_sep: "sep \<notin> set s \<Longrightarrow> split_char s sep = [s]"
  by (induction s) auto

lemma split_char_nonempty: "split_char s sep \<noteq> []"
  by (induction s) (auto split: list.splits)

lemma strip_chars_clean:
  assumes "s \<noteq> []" "hd s \<notin> set chars" "last s \<notin> set chars"
  shows "strip_chars s chars = s"
proof -
  from assms have "lstrip_chars s chars = s"
    by (cases s) (auto simp: lstrip_chars_def)
  moreover from assms have "rstrip_chars s chars = s"
    by (cases s rule: rev_cases) (auto simp: rstrip_chars_def)
  ultimately show ?thesis by (simp add: strip_chars_def)
qed

lemma print_big_message_line:
  assumes "m \<noteq> []" "hd m \<notin> set whitespace" "last m \<notin> set whitespace" "CHR 0x0A \<notin> set m"
  shows "print_big_message m =
    [Print (newline @ newline @ replicate 67 CHR ''*''), Print (''* '' @ m),
     Print (replicate 67 CHR ''*'' @ newline @ newline)]"
proof -
  have "strip m = m" using assms by (simp add: strip_def strip_chars_clean)
  moreover have "split_char m CHR 0x0A = [m]" using assms(4) by (rule split_char_no_sep)
  ultimately show ?thesis using assms(1) by (simp add: print_big_message_def Let_def)
qed

lemma run_cmd_commands [simp]:
  "commands_of (fst (run_cmd w cmd a e)) = [if e then in_environment w cmd else cmd]"
  by (simp add: run_cmd_def Let_def)

lemma run_cmd_assert:
  "run_cmd w cmd True e =
     (if returncode w (if e then in_environment w cmd else cmd) = 0
      then ([Shell (if e then in_environment w cmd else cmd)], Done 0)
      else ([Shell (if e then in_environment w cmd else cmd),
             Print (''Command '' @ squote @ (if e then in_environment w cmd else cmd) @ squote
                    @ '' failed with exit status code '' @ squote
                    @ str_int (returncode w (if e then in_environment w cmd else cmd)) @ squote
                    @ ''.'' @ newline @ newline @ ''Exiting now.'' @ newline
                    @ ''Try running the start/update script again.'')], Exit 1))"
  by (simp add: run_cmd_def Let_def)

lemma run_cmd_no_assert:
  "run_cmd w cmd False e =
     ([Shell (if e then in_environment w cmd else cmd)],
      Done (returncode w (if e then in_environment w cmd else cmd)))"
  by (simp add: run_cmd_def Let_def)

section \<open>The guard against stale orchestration files\<close>

lemma check_hashes_find:
  "set fs \<subseteq> set ks \<Longrightarrow>
   check_hashes (dict_of_keys ks h1) (dict_of_keys ks h2) fs =
     (case find (\<lambda>f. h1 f \<noteq> h2 f) fs of
        None \<Rightarrow> io_return ()
      | Some g \<Rightarrow> (print_big_message (guard_message g), Exit 1))"
  by (induction fs) (auto simp: dict_get_def dict_of_keys_def guard_message_def)

lemma pull_and_check_find:
  "pull_and_check w =
     io_bind (if \<not> git_dir_exists w
              then io_bind (run_cmd w git_creation_cmd True True) (\<lambda>_. io_return ())
              else io_return ()) (\<lambda>_.
     io_bind (run_cmd w ''git pull --autostash'' True True) (\<lambda>_.
     case find (changed w) files_to_check of
        None \<Rightarrow> io_return ()
      | Some g \<Rightarrow> (print_big_message (guard_message g), Exit 1)))"
  unfolding pull_and_check_def Let_def
  by (simp add: check_hashes_find changed_def [abs_def])

lemma guard_message_line:
  assumes "g \<in> set files_to_check"
  shows "print_big_message (guard_message g) =
    [Print (newline @ newline @ replicate 67 CHR ''*''), Print (''* '' @ guard_message g),
     Print (replicate 67 CHR ''*'' @ newline @ newline)]"
proof (rule print_big_message_line)
  show "guard_message g \<noteq> []" by (simp add: guard_message_def)
  show "hd (guard_message g) \<notin> set whitespace" by (simp add: guard_message_def whitespace_def)
  show "last (guard_message g) \<notin> set whitespace" by (simp add: guard_message_def whitespace_def)
  show "CHR 0x0A \<notin> set (guard_message g)"
    using assms by (auto simp: guard_message_def files_to_check_def)
qed

lemma find_changed_Some:
  assumes "f \<in> set fs" "P f"
  shows "\<exists>g. find P fs = Some g \<and> P g \<and> g \<in> set fs"
  using assms by (induction fs) auto

lemma git_step_cases:
  "(if \<not> git_dir_exists w
    then io_bind (run_cmd w git_creation_cmd True True) (\<lambda>_. io_return ())
    else io_return ()) =
   (if git_dir_exists w then ([], Done ())
    else if returncode w (in_environment w git_creation_cmd) = 0
      then ([Shell (in_environment w git_creation_cmd)], Done ())
      else (fst (run_cmd w git_creation_cmd True True), Exit 1))"
  by (simp add: run_cmd_assert io_return_def)

text \<open>
  Claim C1, as the code has it. When a tracked file's fingerprint before the pull differs
  from the one after it, \<open>update_requirements\<close> ends with exit status 1 and the only
  shell commands it has issued are the creation of the checkout and the pull: no
  extension install, no requirements install, no cache clean. When the guard is reached
  (the checkout exists or was created, and the pull succeeded), the trace is exactly
  those commands followed by the banner that names the first tracked file, in the order
  of \<open>files_to_check\<close>, whose fingerprint differs; no other file is named.
\<close>

theorem stale_code_guard:
  assumes "file_name \<in> set files_to_check" and "changed w file_name"
  shows "snd (update_requirements w initial_installation) = Exit 1
    \<and> set (commands_of (fst (update_requirements w initial_installation)))
        \<subseteq> {in_environment w git_creation_cmd, in_environment w ''git pull --autostash''}
    \<and> ((git_dir_exists w \<or> returncode w (in_environment w git_creation_cmd) = 0)
        \<and> returncode w (in_environment w ''git pull --autostash'') = 0
        \<longrightarrow> (\<exists>first. find (changed w) files_to_check = Some first
              \<and> fst (update_requirements w initial_installation) =
                  (if git_dir_exists w then [] else [Shell (in_environment w git_creation_cmd)])
                  @ [Shell (in_environment w ''git pull --autostash''),
                     Print (newline @ newline @ replicate 67 CHR ''*''),
                     Print (''* '' @ guard_message first),
                     Print (replicate 67 CHR ''*'' @ newline @ newline)]))"
proof -
  from assms obtain g where g: "find (changed w) files_to_check = Some g" "g \<in> set files_to_check"
    using find_changed_Some [of file_name files_to_check "changed w"] by blast
  note line = guard_message_line [OF g(2)]
  have pc: "pull_and_check w =
     io_bind (if \<not> git_dir_exists w
              then io_bind (run_cmd w git_creation_cmd True True) (\<lambda>_. io_return ())
              else io_return ()) (\<lambda>_.
     io_bind (run_cmd w ''git pull --autostash'' True True) (\<lambda>_.
       (print_big_message (guard_message g), Exit 1)))"
    by (simp add: pull_and_check_find g(1))
  show ?thesis
    unfolding update_requirements_def pc git_step_cases
    by (simp add: g(1) line run_cmd_assert)
qed

text \<open>
  The guard on a host where the pull replaces \<open>one_click.py\<close>.
\<close>

theorem stale_code_guard_witness:
  "''one_click.py'' \<in> set files_to_check \<and> changed stale_host ''one_click.py''
   \<and> snd (update_requirements stale_host False) = Exit 1
   \<and> commands_of (fst (update_requirements stale_host False)) = [in_environment stale_host ''git pull --autostash'']
   \<and> printed (fst (update_requirements stale_host False)) =
       [newline @ newline @ replicate 67 CHR ''*'',
        ''* File 'one_click.py' was updated during 'git pull'. Please run the script again.'',
        replicate 67 CHR ''*'' @ newline @ newline]"
proof -
  have 1: "''one_click.py'' \<in> set files_to_check" by (simp add: files_to_check_def)
  have 2: "changed stale_host ''one_click.py''"
    by (simp add: changed_def calculate_file_hash_def stale_host_def linux_host_def)
  have 3: "git_dir_exists stale_host" by (simp add: stale_host_def linux_host_def)
  have 4: "returncode stale_host c = 0" for c by (simp add: stale_host_def linux_host_def)
  have 5: "find (changed stale_host) files_to_check = Some ''one_click.py''"
    by (simp add: files_to_check_def changed_def calculate_file_hash_def stale_host_def linux_host_def)
  from stale_code_guard [OF 1 2, of False] 3 4 5 show ?thesis
    using 1 2 by (auto simp: guard_message_def)
qed

section \<open>What does not depend on the environment variables\<close>

lemma os_path_join_environ [simp]:
  "os_path_join (w\<lparr>environ := e\<rparr>) path bs = os_path_join w path bs"
  by (induction bs arbitrary: path)
    (simp_all add: os_path_join.simps os_seps_def os_sep_def is_windows_def)

lemma platform_environ [simp]:
  "is_linux (w\<lparr>environ := e\<rparr>) = is_linux w"
  "is_windows (w\<lparr>environ := e\<rparr>) = is_windows w"
  "is_macos (w\<lparr>environ := e\<rparr>) = is_macos w"
  "is_x86_64 (w\<lparr>environ := e\<rparr>) = is_x86_64 w"
  "cpu_has_avx2 (w\<lparr>environ := e\<rparr>) = cpu_has_avx2 w"
  by (simp_all add: is_linux_def is_windows_def is_macos_def is_x86_64_def cpu_has_avx2_def)

lemma base_requirements_environ [simp]:
  "base_requirements (w\<lparr>environ := e\<rparr>) torver = base_requirements w torver"
  by (simp add: base_requirements_def)

lemma paths_environ [simp]:
  "conda_env_path (w\<lparr>environ := e\<rparr>) = conda_env_path w"
  "cmd_flags_path (w\<lparr>environ := e\<rparr>) = cmd_flags_path w"
  "in_environment (w\<lparr>environ := e\<rparr>) cmd = in_environment w cmd"
  by (simp_all add: conda_env_path_def cmd_flags_path_def in_environment_def)

lemma run_cmd_environ [simp]:
  "run_cmd (w\<lparr>environ := e\<rparr>) cmd a b = run_cmd w cmd a b"
  by (simp add: run_cmd_def)

lemma clear_cache_environ [simp]: "clear_cache (w\<lparr>environ := e\<rparr>) = clear_cache w"
  by (simp add: clear_cache_def)

lemma calculate_file_hash_environ [simp]:
  "calculate_file_hash (w\<lparr>environ := e\<rparr>) = calculate_file_hash w"
  by (simp add: fun_eq_iff calculate_file_hash_def split: option.splits)

lemma pull_and_check_environ [simp]: "pull_and_check (w\<lparr>environ := e\<rparr>) = pull_and_check w"
  by (simp add: pull_and_check_def)

lemma install_extensions_environ [simp]:
  "install_extensions (w\<lparr>environ := e\<rparr>) = install_extensions w"
  by (simp add: install_extensions_def split del: if_split cong: if_cong option.case_cong)

lemma install_requirements_environ:
  "e ''INSTALL_EXTENSIONS'' = environ w ''INSTALL_EXTENSIONS'' \<Longrightarrow>
   install_requirements (w\<lparr>environ := e\<rparr>) i = install_requirements w i"
  by (simp add: install_requirements_def split del: if_split
      cong: if_cong option.case_cong sum.case_cong)

lemma update_requirements_environ:
  "e ''INSTALL_EXTENSIONS'' = environ w ''INSTALL_EXTENSIONS'' \<Longrightarrow>
   update_requirements (w\<lparr>environ := e\<rparr>) i = update_requirements w i"
  by (simp add: update_requirements_def install_requirements_environ)

lemma select_pytorch_environ:
  "e ''USE_CUDA118'' = environ w ''USE_CUDA118'' \<Longrightarrow>
   select_pytorch (w\<lparr>environ := e\<rparr>) gpu stdin = select_pytorch w gpu stdin"
  by (simp add: select_pytorch_def split del: if_split cong: if_cong option.case_cong)

lemma install_framework_environ:
  "e ''USE_CUDA118'' = environ w ''USE_CUDA118'' \<Longrightarrow>
   install_framework (w\<lparr>environ := e\<rparr>) gpu stdin = install_framework w gpu stdin"
  by (simp add: install_framework_def select_pytorch_environ split del: if_split cong: if_cong option.case_cong)

section \<open>The selected GPU\<close>

lemma selected_gpu_pinned: "selected_gpu_of choice = io_return ''NVIDIA''"
  by (simp add: selected_gpu_of_def dict_get_def gpu_choice_to_name_def)

lemma gpu_choice_loop_accept:
  "str_in choice ''ABCDN'' \<Longrightarrow> gpu_choice_loop choice stdin = io_return (choice, stdin)"
  by (subst gpu_choice_loop.simps) simp

lemma use_cuda118_loop_accept:
  "str_in answer ''YN'' \<Longrightarrow> use_cuda118_loop answer stdin = io_return (answer, stdin)"
  by (subst use_cuda118_loop.simps) simp

lemma read_gpu_choice_menu:
  "environ w ''GPU_CHOICE'' = None \<Longrightarrow> str_in (upper l) ''ABCDN'' \<Longrightarrow>
   read_gpu_choice w (l # stdin) = (gpu_menu @ [Prompt ''Input> ''], Done (upper l, stdin))"
  by (simp add: read_gpu_choice_def input_def gpu_choice_loop_accept gpu_menu_def io_return_def)

lemma read_gpu_choice_env:
  "environ w ''GPU_CHOICE'' = Some v \<Longrightarrow>
   read_gpu_choice w stdin =
     (print_big_message (''Selected GPU choice '' @ dquote @ upper v @ dquote
                         @ '' based on the GPU_CHOICE environment variable.''),
      Done (upper v, stdin))"
  by (simp add: read_gpu_choice_def Let_def io_return_def)

lemma install_webui_menu:
  "environ w ''GPU_CHOICE'' = None \<Longrightarrow> str_in (upper l) ''ABCDN'' \<Longrightarrow>
   install_webui w (l # stdin) =
     io_bind (gpu_menu @ [Prompt ''Input> ''], Done ()) (\<lambda>_.
     io_bind (install_framework w ''NVIDIA'' stdin) (\<lambda>_. update_requirements w True))"
  by (simp add: install_webui_def read_gpu_choice_menu selected_gpu_pinned)

lemma install_webui_env:
  "environ w ''GPU_CHOICE'' = Some v \<Longrightarrow>
   install_webui w stdin =
     io_bind (print_big_message (''Selected GPU choice '' @ dquote @ upper v @ dquote
                         @ '' based on the GPU_CHOICE environment variable.''), Done ()) (\<lambda>_.
     io_bind (install_framework w ''NVIDIA'' stdin) (\<lambda>_. update_requirements w True))"
  by (simp add: install_webui_def read_gpu_choice_env selected_gpu_pinned)

lemma install_webui_env_commands:
  "commands_of (fst (install_webui (w\<lparr>environ := (environ w)(''GPU_CHOICE'' \<mapsto> v)\<rparr>) stdin)) =
   commands_of (fst (io_bind (install_framework w ''NVIDIA'' stdin)
                       (\<lambda>_. update_requirements w True)))"
  by (simp add: install_webui_env install_framework_environ update_requirements_environ)

lemma install_webui_env_outcome:
  "snd (install_webui (w\<lparr>environ := (environ w)(''GPU_CHOICE'' \<mapsto> v)\<rparr>) stdin) =
   snd (io_bind (install_framework w ''NVIDIA'' stdin) (\<lambda>_. update_requirements w True))"
  by (simp add: install_webui_env install_framework_environ update_requirements_environ)

lemma install_webui_nvidia:
  "install_webui w stdin =
     io_bind (read_gpu_choice w stdin) (\<lambda>(choice, stdin').
     io_bind (install_framework w ''NVIDIA'' stdin') (\<lambda>_. update_requirements w True))"
  by (simp add: install_webui_def selected_gpu_pinned)

lemma install_webui_menu_commands:
  "environ w ''GPU_CHOICE'' = None \<Longrightarrow> str_in (upper l) ''ABCDN'' \<Longrightarrow>
   commands_of (fst (install_webui w (l # stdin))) =
   commands_of (fst (io_bind (install_framework w ''NVIDIA'' stdin)
                       (\<lambda>_. update_requirements w True)))"
  by (simp add: install_webui_menu gpu_menu_def)

text \<open>
  Claim C2. Whatever the choice, the selected GPU is \<open>NVIDIA\<close>: \<open>install_webui\<close> reads
  the choice and then runs the installation steps of the NVIDIA branch, followed by
  \<open>update_requirements\<close>. With \<open>GPU_CHOICE\<close> set to any value, and with any accepted
  answer to the menu, the shell commands issued are those of the NVIDIA branch on this
  host. So two runs on the same host that differ only in the value of \<open>GPU_CHOICE\<close>
  issue the same shell commands and end the same way; and without \<open>GPU_CHOICE\<close>, two
  runs that differ only in the accepted answer to the menu are equal altogether.
\<close>

theorem gpu_choice_pinned:
  "selected_gpu_of choice = io_return ''NVIDIA''
   \<and> install_webui w stdin =
       io_bind (read_gpu_choice w stdin) (\<lambda>(choice, stdin').
       io_bind (install_framework w ''NVIDIA'' stdin') (\<lambda>_. update_requirements w True))
   \<and> commands_of (fst (install_webui (w\<lparr>environ := (environ w)(''GPU_CHOICE'' \<mapsto> c1)\<rparr>) stdin))
     = commands_of (fst (io_bind (install_framework w ''NVIDIA'' stdin)
                           (\<lambda>_. update_requirements w True)))
   \<and> (environ w ''GPU_CHOICE'' = None \<and> str_in (upper l1) ''ABCDN''
        \<longrightarrow> commands_of (fst (install_webui w (l1 # stdin)))
            = commands_of (fst (io_bind (install_framework w ''NVIDIA'' stdin)
                                  (\<lambda>_. update_requirements w True))))
   \<and> commands_of (fst (install_webui (w\<lparr>environ := (environ w)(''GPU_CHOICE'' \<mapsto> c1)\<rparr>) stdin))
     = commands_of (fst (install_webui (w\<lparr>environ := (environ w)(''GPU_CHOICE'' \<mapsto> c2)\<rparr>) stdin))
   \<and> snd (install_webui (w\<lparr>environ := (environ w)(''GPU_CHOICE'' \<mapsto> c1)\<rparr>) stdin)
     = snd (install_webui (w\<lparr>environ := (environ w)(''GPU_CHOICE'' \<mapsto> c2)\<rparr>) stdin)
   \<and> (environ w ''GPU_CHOICE'' = None \<and> str_in (upper l1) ''ABCDN'' \<and> str_in (upper l2) ''ABCDN''
        \<longrightarrow> install_webui w (l1 # stdin) = install_webui w (l2 # stdin))"
proof -
  have 1: "install_webui w stdin =
       io_bind (read_gpu_choice w stdin) (\<lambda>(choice, stdin').
       io_bind (install_framework w ''NVIDIA'' stdin') (\<lambda>_. update_requirements w True))"
    by (rule install_webui_nvidia)
  have 2: "environ w ''GPU_CHOICE'' = None \<and> str_in (upper l1) ''ABCDN''
        \<longrightarrow> commands_of (fst (install_webui w (l1 # stdin)))
            = commands_of (fst (io_bind (install_framework w ''NVIDIA'' stdin)
                                  (\<lambda>_. update_requirements w True)))"
    by (simp add: install_webui_menu_commands)
  have 3: "environ w ''GPU_CHOICE'' = None \<and> str_in (upper l1) ''ABCDN'' \<and> str_in (upper l2) ''ABCDN''
        \<longrightarrow> install_webui w (l1 # stdin) = install_webui w (l2 # stdin)"
    by (simp add: install_webui_menu)
  from 1 2 3 show ?thesis
    by (simp add: selected_gpu_pinned install_webui_env_commands install_webui_env_outcome)
qed

lemma host_fields [simp]:
  "environ linux_host k = None"
  "returncode linux_host c = 0"
  "is_linux linux_host" "\<not> is_windows linux_host" "\<not> is_macos linux_host"
  "environ macos_host k = None"
  "returncode macos_host c = 0"
  "\<not> is_linux macos_host" "\<not> is_windows macos_host" "is_macos macos_host"
  "environ windows_host k = None"
  "returncode windows_host c = 0"
  "\<not> is_linux windows_host" "is_windows windows_host" "\<not> is_macos windows_host"
  by (simp_all add: linux_host_def macos_host_def windows_host_def is_linux_def is_windows_def
      is_macos_def startswith_def)

section \<open>The AMD branch\<close>

lemma platforms_exclusive:
  "is_windows w \<Longrightarrow> \<not> is_linux w \<and> \<not> is_macos w"
  "is_macos w \<Longrightarrow> \<not> is_linux w"
  by (auto simp: is_windows_def is_linux_def is_macos_def startswith_def prefix_def)

text \<open>
  Claim C3, as the code has it by design. In the branch of the decision table for a
  selected GPU named \<open>AMD\<close>: on a host that is neither Linux nor macOS (Windows is
  one) the installation prints the explanation and exits with status 1 before any
  command is issued; on macOS the selection is not an error and the default framework
  install command is kept; on Linux the ROCm index is used.
\<close>

theorem amd_branch:
  "(\<not> is_linux w \<and> \<not> is_macos w \<longrightarrow>
      install_framework w ''AMD'' stdin =
        ([Print ''AMD GPUs are only supported on Linux. Exiting...''], Exit 1))
   \<and> (is_windows w \<longrightarrow> \<not> is_linux w \<and> \<not> is_macos w)
   \<and> (is_macos w \<longrightarrow>
        select_pytorch w ''AMD'' stdin = io_return (''N'', install_pytorch_default, stdin))
   \<and> (is_linux w \<longrightarrow>
        select_pytorch w ''AMD'' stdin =
          io_return (''N'', install_pytorch_default
                            @ ''--index-url https://download.pytorch.org/whl/rocm5.6'', stdin))"
  using platforms_exclusive [of w]
  by (auto simp: install_framework_def select_pytorch_def Let_def)

text \<open>
  The AMD branch on the Windows, macOS and Linux example hosts.
\<close>

theorem amd_branch_witness:
  "\<not> is_linux windows_host \<and> \<not> is_macos windows_host \<and> is_windows windows_host
   \<and> install_framework windows_host ''AMD'' [] =
        ([Print ''AMD GPUs are only supported on Linux. Exiting...''], Exit 1)
   \<and> is_macos macos_host
   \<and> select_pytorch macos_host ''AMD'' [] = io_return (''N'', install_pytorch_default, [])
   \<and> is_linux linux_host
   \<and> select_pytorch linux_host ''AMD'' [] =
          io_return (''N'', install_pytorch_default
                            @ ''--index-url https://download.pytorch.org/whl/rocm5.6'', [])"
  using amd_branch [of windows_host "[]"] amd_branch [of macos_host "[]"]
    amd_branch [of linux_host "[]"]
  by simp

lemma install_framework_answer_no:
  assumes "is_windows w \<or> is_linux w" "environ w ''USE_CUDA118'' = None"
    "\<And>c. returncode w c = 0"
  shows "commands_of (fst (install_framework w ''NVIDIA'' (''n'' # stdin))) =
     [in_environment w (''conda install -y -k ninja git && '' @ install_pytorch_default
        @ ''--index-url https://download.pytorch.org/whl/cu121''
        @ '' && python -m pip install py-cpuinfo==9.0.0''),
      in_environment w (''conda install -y -c '' @ dquote @ ''nvidia/label/cuda-12.1.1'' @ dquote
        @ '' cuda-runtime'')]"
    and "snd (install_framework w ''NVIDIA'' (''n'' # stdin)) = Done ()"
proof -
  have c: "clean_answer ''n'' = ''N''"
    by (simp add: clean_answer_def strip_def strip_chars_def lstrip_chars_def rstrip_chars_def
        whitespace_def upper_def upper_char_def latin_lowercase_def latin_uppercase_def)
  have l: "use_cuda118_loop ''N'' stdin = io_return (''N'', stdin)"
    by (rule use_cuda118_loop_accept) simp
  show "commands_of (fst (install_framework w ''NVIDIA'' (''n'' # stdin))) =
     [in_environment w (''conda install -y -k ninja git && '' @ install_pytorch_default
        @ ''--index-url https://download.pytorch.org/whl/cu121''
        @ '' && python -m pip install py-cpuinfo==9.0.0''),
      in_environment w (''conda install -y -c '' @ dquote @ ''nvidia/label/cuda-12.1.1'' @ dquote
        @ '' cuda-runtime'')]"
    using assms
    by (simp add: install_framework_def select_pytorch_def Let_def input_def c l run_cmd_assert)
  show "snd (install_framework w ''NVIDIA'' (''n'' # stdin)) = Done ()"
    using assms
    by (simp add: install_framework_def select_pytorch_def Let_def input_def c l run_cmd_assert)
qed

text \<open>
  Answering \<open>b\<close> or \<open>N\<close> to the menu on the Linux example host, then \<open>n\<close> to the
  CUDA question: the two runs are equal, and the first two commands are the framework
  install from the \<open>cu121\<close> index and the CUDA 12.1 runtime install of the NVIDIA branch.
\<close>

theorem gpu_choice_pinned_witness:
  "environ linux_host ''GPU_CHOICE'' = None \<and> str_in (upper ''b'') ''ABCDN''
   \<and> str_in (upper ''N'') ''ABCDN''
   \<and> install_webui linux_host [''b'', ''n''] = install_webui linux_host [''N'', ''n'']
   \<and> selected_gpu_of ''B'' = io_return ''NVIDIA''
   \<and> take 2 (commands_of (fst (install_webui linux_host [''b'', ''n'']))) =
       [in_environment linux_host (''conda install -y -k ninja git && '' @ install_pytorch_default
          @ ''--index-url https://download.pytorch.org/whl/cu121''
          @ '' && python -m pip install py-cpuinfo==9.0.0''),
        in_environment linux_host (''conda install -y -c '' @ dquote @ ''nvidia/label/cuda-12.1.1''
          @ dquote @ '' cuda-runtime'')]"
proof -
  note pin = gpu_choice_pinned [where w = linux_host and ?l1.0 = "''b''" and ?l2.0 = "''N''"
      and stdin = "[''n'']" and choice = "''B''"]
  have h: "environ linux_host ''GPU_CHOICE'' = None" "str_in (upper ''b'') ''ABCDN''"
    "str_in (upper ''N'') ''ABCDN''"
    by (simp_all add: upper_def upper_char_def latin_lowercase_def latin_uppercase_def)
  have 1: "install_webui linux_host [''b'', ''n''] = install_webui linux_host [''N'', ''n'']"
    using pin h by blast
  have 2: "selected_gpu_of ''B'' = io_return ''NVIDIA''"
    using pin by blast
  have 3: "commands_of (fst (install_webui linux_host [''b'', ''n''])) =
      commands_of (fst (io_bind (install_framework linux_host ''NVIDIA'' [''n''])
                          (\<lambda>_. update_requirements linux_host True)))"
    using pin h by blast
  have 4: "take 2 (commands_of (fst (io_bind (install_framework linux_host ''NVIDIA'' [''n''])
                          (\<lambda>_. update_requirements linux_host True)))) =
       [in_environment linux_host (''conda install -y -k ninja git && '' @ install_pytorch_default
          @ ''--index-url https://download.pytorch.org/whl/cu121''
          @ '' && python -m pip install py-cpuinfo==9.0.0''),
        in_environment linux_host (''conda install -y -c '' @ dquote @ ''nvidia/label/cuda-12.1.1''
          @ dquote @ '' cuda-runtime'')]"
    using install_framework_answer_no [of linux_host "[]"]
    by (simp add: io_bind_cases)
  from h 1 2 3 4 show ?thesis by simp
qed

section \<open>The CUDA question\<close>

lemma select_pytorch_empty_answer:
  assumes "is_windows w \<or> is_linux w" "environ w ''USE_CUDA118'' = None"
  shows "snd (select_pytorch w ''NVIDIA'' ('''' # stdin)) =
     Done ('''', install_pytorch_default @ ''--index-url https://download.pytorch.org/whl/cu121'',
           stdin)"
  using assms
  by (simp add: select_pytorch_def Let_def input_def clean_answer_def strip_def strip_chars_def
      lstrip_chars_def rstrip_chars_def upper_def use_cuda118_loop_accept)

lemma install_framework_empty_answer:
  assumes "is_windows w \<or> is_linux w" "environ w ''USE_CUDA118'' = None"
    "\<And>c. returncode w c = 0"
  shows "commands_of (fst (install_framework w ''NVIDIA'' ('''' # stdin))) =
     [in_environment w (''conda install -y -k ninja git && '' @ install_pytorch_default
        @ ''--index-url https://download.pytorch.org/whl/cu121''
        @ '' && python -m pip install py-cpuinfo==9.0.0''),
      in_environment w (''conda install -y -c '' @ dquote @ ''nvidia/label/cuda-11.8.0'' @ dquote
        @ '' cuda-runtime'')]"
  using assms
  by (simp add: install_framework_def select_pytorch_def Let_def input_def clean_answer_def
      strip_def strip_chars_def lstrip_chars_def rstrip_chars_def upper_def
      use_cuda118_loop_accept run_cmd_assert)

text \<open>
  Claim C5 fails on the code by a slip. On Linux, without \<open>USE_CUDA118\<close>, answering
  the CUDA question with an empty line is accepted, since \<open>'' not in 'YN'\<close> is false.
  The framework is then installed from the \<open>cu121\<close> index, and the runtime command
  pins \<open>cuda-11.8.0\<close>: the two comparisons \<open>== 'Y'\<close> and \<open>== 'N'\<close> disagree on
  the empty answer.
\<close>

theorem cuda_runtime_mismatch:
  "take 2 (commands_of (fst (install_webui linux_host [''A'', '''']))) =
     [in_environment linux_host (''conda install -y -k ninja git && '' @ install_pytorch_default
        @ ''--index-url https://download.pytorch.org/whl/cu121''
        @ '' && python -m pip install py-cpuinfo==9.0.0''),
      in_environment linux_host (''conda install -y -c '' @ dquote @ ''nvidia/label/cuda-11.8.0''
        @ dquote @ '' cuda-runtime'')]"
proof -
  have "str_in (upper ''A'') ''ABCDN''" by (simp add: upper_def upper_char_def latin_lowercase_def latin_uppercase_def)
  then have "install_webui linux_host [''A'', ''''] =
     io_bind (gpu_menu @ [Prompt ''Input> ''], Done ()) (\<lambda>_.
     io_bind (install_framework linux_host ''NVIDIA'' ['''']) (\<lambda>_.
       update_requirements linux_host True))"
    by (simp add: install_webui_menu)
  moreover have "snd (install_framework linux_host ''NVIDIA'' ['''']) = Done ()"
    by (simp add: install_framework_def select_pytorch_def Let_def input_def clean_answer_def
      strip_def strip_chars_def lstrip_chars_def rstrip_chars_def upper_def
      use_cuda118_loop_accept run_cmd_assert)
  ultimately show ?thesis
    using install_framework_empty_answer [of linux_host "[]"]
    by (simp add: io_bind_cases gpu_menu_def)
qed

lemma cuda_versions_match:
  assumes "is_windows w \<or> is_linux w" "environ w ''USE_CUDA118'' = Some v"
    "\<And>c. returncode w c = 0"
  shows "commands_of (fst (install_framework w ''NVIDIA'' stdin)) =
     (if lower v \<in> set truthy then
       [in_environment w (''conda install -y -k ninja git && '' @ install_pytorch_default
          @ ''--index-url https://download.pytorch.org/whl/cu118''
          @ '' && python -m pip install py-cpuinfo==9.0.0''),
        in_environment w (''conda install -y -c '' @ dquote @ ''nvidia/label/cuda-11.8.0'' @ dquote
          @ '' cuda-runtime'')]
      else
       [in_environment w (''conda install -y -k ninja git && '' @ install_pytorch_default
          @ ''--index-url https://download.pytorch.org/whl/cu121''
          @ '' && python -m pip install py-cpuinfo==9.0.0''),
        in_environment w (''conda install -y -c '' @ dquote @ ''nvidia/label/cuda-12.1.1'' @ dquote
          @ '' cuda-runtime'')])"
  using assms
  by (simp add: install_framework_def select_pytorch_def Let_def run_cmd_assert)

text \<open>
  Claim C3 as stated fails on macOS: with a selected GPU named \<open>AMD\<close> the decision
  table returns the default framework install command, not an error; and
  \<open>install_webui\<close> run with \<open>GPU_CHOICE=B\<close> issues the framework install command.
\<close>

theorem amd_on_macos:
  "is_macos macos_host \<and> \<not> is_linux macos_host
   \<and> select_pytorch macos_host ''AMD'' [] = ([], Done (''N'', install_pytorch_default, []))
   \<and> take 1 (commands_of (fst (install_webui
         (macos_host\<lparr>environ := [''GPU_CHOICE'' \<mapsto> ''B'']\<rparr>) []))) =
       [in_environment macos_host (''conda install -y -k ninja git && '' @ install_pytorch_default
          @ '' && python -m pip install py-cpuinfo==9.0.0'')]"
proof -
  have 1: "select_pytorch macos_host ''AMD'' [] = ([], Done (''N'', install_pytorch_default, []))"
    by (simp add: select_pytorch_def Let_def io_return_def)
  have 2: "install_framework (macos_host\<lparr>environ := [''GPU_CHOICE'' \<mapsto> ''B'']\<rparr>) ''NVIDIA'' []
      = install_framework macos_host ''NVIDIA'' []"
    by (rule install_framework_environ) simp
  have 3: "commands_of (fst (install_framework macos_host ''NVIDIA'' [])) =
     [in_environment macos_host (''conda install -y -k ninja git && '' @ install_pytorch_default
          @ '' && python -m pip install py-cpuinfo==9.0.0''),
      in_environment macos_host (''conda install -y -c '' @ dquote @ ''nvidia/label/cuda-12.1.1''
          @ dquote @ '' cuda-runtime'')]"
    by (simp add: install_framework_def select_pytorch_def Let_def run_cmd_assert)
  have 4: "snd (install_framework macos_host ''NVIDIA'' []) = Done ()"
    by (simp add: install_framework_def select_pytorch_def Let_def run_cmd_assert)
  have "install_webui (macos_host\<lparr>environ := [''GPU_CHOICE'' \<mapsto> ''B'']\<rparr>) [] =
     io_bind (print_big_message (''Selected GPU choice '' @ dquote @ upper ''B'' @ dquote
                         @ '' based on the GPU_CHOICE environment variable.''), Done ()) (\<lambda>_.
     io_bind (install_framework (macos_host\<lparr>environ := [''GPU_CHOICE'' \<mapsto> ''B'']\<rparr>) ''NVIDIA'' [])
       (\<lambda>_. update_requirements (macos_host\<lparr>environ := [''GPU_CHOICE'' \<mapsto> ''B'']\<rparr>) True))"
    by (rule install_webui_env) simp
  then show ?thesis using 1 2 3 4 by (simp add: io_bind_cases)
qed

lemma find_Some_mem: "find P xs = Some x \<Longrightarrow> x \<in> set xs \<and> P x"
  by (induction xs) (auto split: if_splits)

lemma update_requirements_guard:
  assumes "find (changed w) files_to_check = Some g"
    and "git_dir_exists w \<or> returncode w (in_environment w git_creation_cmd) = 0"
    and "returncode w (in_environment w ''git pull --autostash'') = 0"
  shows "update_requirements w initial_installation =
     ((if git_dir_exists w then [] else [Shell (in_environment w git_creation_cmd)])
      @ [Shell (in_environment w ''git pull --autostash''),
         Print (newline @ newline @ replicate 67 CHR ''*''),
         Print (''* '' @ guard_message g),
         Print (replicate 67 CHR ''*'' @ newline @ newline)], Exit 1)"
proof -
  from assms(1) have "g \<in> set files_to_check" by (simp add: find_Some_mem)
  note line = guard_message_line [OF this]
  show ?thesis
    unfolding update_requirements_def pull_and_check_find git_step_cases
    using assms by (cases "git_dir_exists w") (simp_all add: line run_cmd_assert)
qed

text \<open>
  Claim C1 as stated asks for a message naming every tracked file whose fingerprint
  differs. On a host where the pull replaces both \<open>start_linux.sh\<close> and
  \<open>one_click.py\<close>, the process exits with status 1 after printing one banner, which
  names \<open>start_linux.sh\<close> only: \<open>one_click.py\<close> differs too and is never named.
\<close>

theorem second_file_not_named:
  "''one_click.py'' \<in> set files_to_check
   \<and> changed twice_stale_host ''one_click.py''
   \<and> snd (update_requirements twice_stale_host False) = Exit 1
   \<and> printed (fst (update_requirements twice_stale_host False)) =
       [newline @ newline @ replicate 67 CHR ''*'',
        ''* File 'start_linux.sh' was updated during 'git pull'. Please run the script again.'',
        replicate 67 CHR ''*'' @ newline @ newline]"
proof -
  have 1: "find (changed twice_stale_host) files_to_check = Some ''start_linux.sh''"
    by (simp add: files_to_check_def changed_def calculate_file_hash_def twice_stale_host_def
        linux_host_def)
  have 2: "git_dir_exists twice_stale_host" "\<And>c. returncode twice_stale_host c = 0"
    by (simp_all add: twice_stale_host_def linux_host_def)
  have 3: "changed twice_stale_host ''one_click.py''"
    by (simp add: changed_def calculate_file_hash_def twice_stale_host_def linux_host_def)
  have 4: "''one_click.py'' \<in> set files_to_check" by (simp add: files_to_check_def)
  show ?thesis
    using 3 4 by (simp add: update_requirements_guard [OF 1] 2 guard_message_def)
qed

section \<open>The requirements file\<close>

text \<open>
  Claim C4. The requirements file is given by the priority table ROCm, then CPU-only or
  Intel, then macOS (by architecture), then the default. A ROCm build gets the AMD file
  whatever the platform; the \<open>_noavx2\<close> suffix is present exactly when AVX2 is not
  detected and the file is not one of the two Apple files; and the result depends on
  the host and the version only through the five flags.
\<close>

theorem requirements_file_selection:
  "base_requirements w torver =
     (if is_rocm torver then
        (if cpu_has_avx2 w then ''requirements_amd.txt'' else ''requirements_amd_noavx2.txt'')
      else if is_cpu torver \<or> is_intel torver then
        (if cpu_has_avx2 w then ''requirements_cpu_only.txt''
         else ''requirements_cpu_only_noavx2.txt'')
      else if is_macos w then
        (if is_x86_64 w then ''requirements_apple_intel.txt''
         else ''requirements_apple_silicon.txt'')
      else (if cpu_has_avx2 w then ''requirements.txt'' else ''requirements_noavx2.txt''))
   \<and> (is_rocm torver \<longrightarrow>
        base_requirements (w\<lparr>sys_platform := p, platform_machine := m\<rparr>) torver
        = base_requirements w torver)
   \<and> (str_in ''_noavx2'' (base_requirements w torver) \<longleftrightarrow>
        \<not> cpu_has_avx2 w
        \<and> (is_rocm torver \<or> is_cpu torver \<or> is_intel torver \<or> \<not> is_macos w))
   \<and> (is_rocm torver = is_rocm torver'
        \<and> (is_cpu torver \<or> is_intel torver) = (is_cpu torver' \<or> is_intel torver')
        \<and> is_macos w = is_macos w' \<and> is_x86_64 w = is_x86_64 w'
        \<and> cpu_has_avx2 w = cpu_has_avx2 w'
        \<longrightarrow> base_requirements w torver = base_requirements w' torver')"
proof -
  have 1: "base_requirements w torver =
     (if is_rocm torver then
        (if cpu_has_avx2 w then ''requirements_amd.txt'' else ''requirements_amd_noavx2.txt'')
      else if is_cpu torver \<or> is_intel torver then
        (if cpu_has_avx2 w then ''requirements_cpu_only.txt''
         else ''requirements_cpu_only_noavx2.txt'')
      else if is_macos w then
        (if is_x86_64 w then ''requirements_apple_intel.txt''
         else ''requirements_apple_silicon.txt'')
      else (if cpu_has_avx2 w then ''requirements.txt'' else ''requirements_noavx2.txt''))"
    by (simp add: base_requirements_def)
  have 2: "is_rocm torver \<longrightarrow>
        base_requirements (w\<lparr>sys_platform := p, platform_machine := m\<rparr>) torver
        = base_requirements w torver"
    by (simp add: base_requirements_def cpu_has_avx2_def)
  have 3: "str_in ''_noavx2'' (base_requirements w torver) \<longleftrightarrow>
        \<not> cpu_has_avx2 w
        \<and> (is_rocm torver \<or> is_cpu torver \<or> is_intel torver \<or> \<not> is_macos w)"
    unfolding 1 by simp
  have 4: "is_rocm torver = is_rocm torver'
        \<and> (is_cpu torver \<or> is_intel torver) = (is_cpu torver' \<or> is_intel torver')
        \<and> is_macos w = is_macos w' \<and> is_x86_64 w = is_x86_64 w'
        \<and> cpu_has_avx2 w = cpu_has_avx2 w'
        \<longrightarrow> base_requirements w torver = base_requirements w' torver'"
    by (simp add: base_requirements_def)
  from 1 2 3 4 show ?thesis by blast
qed

text \<open>
  A ROCm build on a CPU without AVX2, on Linux and on macOS, and a plain build on Apple
  silicon.
\<close>

theorem requirements_file_selection_witness:
  "is_rocm ''2.0.1+rocm5.4.2'' \<and> \<not> cpu_has_avx2 old_cpu_host
   \<and> base_requirements old_cpu_host ''2.0.1+rocm5.4.2'' = ''requirements_amd_noavx2.txt''
   \<and> base_requirements (old_cpu_host\<lparr>sys_platform := ''darwin'', platform_machine := ''arm64''\<rparr>)
        ''2.0.1+rocm5.4.2'' = ''requirements_amd_noavx2.txt''
   \<and> base_requirements macos_host ''2.1.0'' = ''requirements_apple_silicon.txt''"
proof -
  note sel = requirements_file_selection [where w = old_cpu_host and torver = "''2.0.1+rocm5.4.2''"
      and p = "''darwin''" and m = "''arm64''"]
  have r: "is_rocm ''2.0.1+rocm5.4.2''" by (simp add: is_rocm_def)
  have a: "\<not> cpu_has_avx2 old_cpu_host"
    by (simp add: cpu_has_avx2_def old_cpu_host_def linux_host_def)
  have 1: "base_requirements old_cpu_host ''2.0.1+rocm5.4.2'' = ''requirements_amd_noavx2.txt''"
    using conjunct1 [OF sel] r a by simp
  have 2: "base_requirements (old_cpu_host\<lparr>sys_platform := ''darwin'', platform_machine := ''arm64''\<rparr>)
        ''2.0.1+rocm5.4.2'' = ''requirements_amd_noavx2.txt''"
    using conjunct1 [OF conjunct2 [OF sel]] r 1 by simp
  have m: "\<not> is_rocm ''2.1.0''" "\<not> is_cpu ''2.1.0''" "\<not> is_intel ''2.1.0''"
    "is_macos macos_host" "\<not> is_x86_64 macos_host"
    by (simp_all add: is_rocm_def is_cpu_def is_intel_def is_x86_64_def is_macos_def
        startswith_def macos_host_def)
  have 3: "base_requirements macos_host ''2.1.0'' = ''requirements_apple_silicon.txt''"
    using conjunct1 [OF requirements_file_selection [where w = macos_host and torver = "''2.1.0''"]] m
    by simp
  from r a 1 2 3 show ?thesis by simp
qed

section \<open>The preparation of the requirements list\<close>

lemma prepare_requirements_cases:
  "prepare_requirements False True reqs = map cu118_line reqs"
  "prepare_requirements True True reqs =
     map cu118_line (filter (\<lambda>req. \<not> str_in ''jllllll/flash-attention'' req) reqs)"
  "prepare_requirements windows False reqs = reqs"
  by (simp_all add: prepare_requirements_def filter_map o_def flash_cu118_line)

lemma map_cu118_line_idem: "map cu118_line (map cu118_line reqs) = map cu118_line reqs"
  by (simp add: cu118_line_idem)

lemma prepare_requirements_idem:
  "prepare_requirements windows True (prepare_requirements windows True reqs) =
   prepare_requirements windows True reqs"
  by (cases windows)
    (simp_all add: prepare_requirements_cases filter_map o_def flash_cu118_line cu118_line_idem)

text \<open>
  Claim C6. With a CUDA 11.8 build the requirements list is mapped line by line; no line
  of the result contains \<open>+cu121\<close> or \<open>+cu122\<close>, each occurrence having become
  \<open>+cu118\<close> with the text around it rewritten in the same way and the length kept; a
  line without the two tokens is unchanged; the patch is idempotent, and it leaves a
  list that uses neither token as it is. On Windows the lines that contain the
  flash-attention reference, and only they, are removed as well. Without a CUDA 11.8
  build nothing changes.
\<close>

theorem legacy_cuda_patch:
  "prepare_requirements False True reqs = map cu118_line reqs
   \<and> prepare_requirements True True reqs =
       map cu118_line (filter (\<lambda>req. \<not> str_in ''jllllll/flash-attention'' req) reqs)
   \<and> prepare_requirements windows False reqs = reqs
   \<and> (\<forall>req. \<not> str_in ''+cu121'' (cu118_line req) \<and> \<not> str_in ''+cu122'' (cu118_line req)
          \<and> length (cu118_line req) = length req)
   \<and> (\<forall>a b. cu118_line (a @ ''+cu121'' @ b) = cu118_line a @ ''+cu118'' @ cu118_line b
          \<and> cu118_line (a @ ''+cu122'' @ b) = cu118_line a @ ''+cu118'' @ cu118_line b)
   \<and> (\<forall>req. \<not> str_in ''+cu121'' req \<and> \<not> str_in ''+cu122'' req \<longrightarrow> cu118_line req = req)
   \<and> prepare_requirements windows True (prepare_requirements windows True reqs)
       = prepare_requirements windows True reqs
   \<and> ((\<forall>req \<in> set reqs. \<not> str_in ''+cu121'' req \<and> \<not> str_in ''+cu122'' req)
        \<longrightarrow> prepare_requirements False True reqs = reqs)"
proof -
  have "(\<forall>req \<in> set reqs. \<not> str_in ''+cu121'' req \<and> \<not> str_in ''+cu122'' req)
        \<longrightarrow> map cu118_line reqs = reqs"
    by (simp add: cu118_line_unchanged map_idI)
  then show ?thesis
    using cu118_line_no_cu121 cu118_line_no_cu122 length_cu118_line cu118_line_cu121
      cu118_line_cu122 cu118_line_unchanged prepare_requirements_idem
    by (simp add: prepare_requirements_cases)
qed

text \<open>
  The patch on a list that already uses \<open>+cu118\<close>, on a line with both tokens, and
  on Windows.
\<close>

theorem legacy_cuda_patch_witness:
  "\<not> str_in ''+cu121'' ''torch==2.1.0+cu118'' \<and> \<not> str_in ''+cu122'' ''torch==2.1.0+cu118''
   \<and> \<not> str_in ''+cu121'' ''numpy'' \<and> \<not> str_in ''+cu122'' ''numpy''
   \<and> prepare_requirements False True [''torch==2.1.0+cu118'', ''numpy'']
       = [''torch==2.1.0+cu118'', ''numpy'']
   \<and> cu118_line ''a+cu121;b+cu122'' = ''a+cu118;b+cu118''
   \<and> prepare_requirements True True
         [''x+cu122'', ''https://github.com/jllllll/flash-attention/fa+cu122.whl'']
       = [''x+cu118'']"
proof -
  have h: "\<forall>req \<in> set [''torch==2.1.0+cu118'', ''numpy''].
       \<not> str_in ''+cu121'' req \<and> \<not> str_in ''+cu122'' req"
    by simp
  have 1: "prepare_requirements False True [''torch==2.1.0+cu118'', ''numpy'']
       = [''torch==2.1.0+cu118'', ''numpy'']"
    using legacy_cuda_patch [where reqs = "[''torch==2.1.0+cu118'', ''numpy'']"] h by blast
  have 2: "cu118_line ''a+cu121;b+cu122'' = ''a+cu118;b+cu118''"
    by (simp add: cu118_line_def)
  have 3: "prepare_requirements True True
         [''x+cu122'', ''https://github.com/jllllll/flash-attention/fa+cu122.whl'']
       = [''x+cu118'']"
    by (simp add: prepare_requirements_def cu118_line_def)
  from h 1 2 3 show ?thesis by simp
qed

section \<open>Files absent before and after the pull\<close>

lemma os_path_join_files [simp]:
  "os_path_join (w\<lparr>files_before_pull := fb, files_after_pull := fa\<rparr>) path bs
   = os_path_join w path bs"
  by (induction bs arbitrary: path)
    (simp_all add: os_path_join.simps os_seps_def os_sep_def is_windows_def)

lemma run_cmd_files [simp]:
  "run_cmd (w\<lparr>files_before_pull := fb, files_after_pull := fa\<rparr>) cmd a b = run_cmd w cmd a b"
  by (simp add: run_cmd_def in_environment_def conda_env_path_def is_windows_def)

lemma changed_absent:
  assumes "files_before_pull w f = None" "files_after_pull w f = None"
  shows "changed (w\<lparr>files_before_pull := (files_before_pull w)(f \<mapsto> bytes),
                    files_after_pull := (files_after_pull w)(f \<mapsto> bytes)\<rparr>) = changed w"
  using assms
  by (auto simp: fun_eq_iff changed_def calculate_file_hash_def split: option.splits)

text \<open>
  Claim C10. A tracked file that is absent before and after the pull has the empty
  fingerprint in both snapshots. It does not count as changed, it is never the file on
  whose account the guard stops the run, and the checkout, pull and guard run exactly as
  they would if the file were present with the same bytes on both sides.
\<close>

theorem absent_file_never_stale:
  assumes "files_before_pull w file_name = None" and "files_after_pull w file_name = None"
  shows "calculate_file_hash w (files_before_pull w) file_name = ''''
    \<and> calculate_file_hash w (files_after_pull w) file_name = ''''
    \<and> \<not> changed w file_name
    \<and> find (changed w) files_to_check \<noteq> Some file_name
    \<and> pull_and_check (w\<lparr>files_before_pull := (files_before_pull w)(file_name \<mapsto> bytes),
                         files_after_pull := (files_after_pull w)(file_name \<mapsto> bytes)\<rparr>)
        = pull_and_check w"
proof -
  have 1: "calculate_file_hash w (files_before_pull w) file_name = ''''"
    "calculate_file_hash w (files_after_pull w) file_name = ''''"
    using assms by (simp_all add: calculate_file_hash_def)
  then have 2: "\<not> changed w file_name" by (simp add: changed_def)
  then have 3: "find (changed w) files_to_check \<noteq> Some file_name"
    using find_Some_mem [of "changed w" files_to_check file_name] by blast
  have 4: "pull_and_check (w\<lparr>files_before_pull := (files_before_pull w)(file_name \<mapsto> bytes),
                         files_after_pull := (files_after_pull w)(file_name \<mapsto> bytes)\<rparr>)
        = pull_and_check w"
    by (simp add: pull_and_check_find changed_absent [OF assms])
  from 1 2 3 4 show ?thesis by simp
qed

text \<open>
  \<open>start_wsl.bat\<close> on the Linux example host, where it does not exist.
\<close>

theorem absent_file_never_stale_witness:
  "files_before_pull linux_host ''start_wsl.bat'' = None
   \<and> files_after_pull linux_host ''start_wsl.bat'' = None
   \<and> calculate_file_hash linux_host (files_before_pull linux_host) ''start_wsl.bat'' = ''''
   \<and> calculate_file_hash linux_host (files_after_pull linux_host) ''start_wsl.bat'' = ''''
   \<and> \<not> changed linux_host ''start_wsl.bat''
   \<and> find (changed linux_host) files_to_check \<noteq> Some ''start_wsl.bat''"
proof -
  have h: "files_before_pull linux_host ''start_wsl.bat'' = None"
    "files_after_pull linux_host ''start_wsl.bat'' = None"
    by (simp_all add: linux_host_def)
  from absent_file_never_stale [OF h] h show ?thesis by simp
qed

section \<open>CPU feature detection\<close>

text \<open>
  Claim C7. When \<open>cpuinfo\<close> cannot be imported or raises, and when its result has no
  \<open>flags\<close> entry, \<open>cpu_has_avx2\<close> and \<open>cpu_has_amx\<close> return \<open>True\<close>. Each returns
  \<open>False\<close> exactly when the detection succeeded and the flag is not in the list.
\<close>

theorem cpu_detection_fails_open:
  "(\<forall>e. cpuinfo w = Inl e \<longrightarrow> cpu_has_avx2 w \<and> cpu_has_amx w)
   \<and> (\<forall>info. cpuinfo w = Inr info \<and> info ''flags'' = None \<longrightarrow> cpu_has_avx2 w \<and> cpu_has_amx w)
   \<and> (\<not> cpu_has_avx2 w \<longleftrightarrow>
        (\<exists>info fl. cpuinfo w = Inr info \<and> info ''flags'' = Some fl \<and> ''avx2'' \<notin> set fl))
   \<and> (\<not> cpu_has_amx w \<longleftrightarrow>
        (\<exists>info fl. cpuinfo w = Inr info \<and> info ''flags'' = Some fl \<and> ''amx'' \<notin> set fl))"
  by (auto simp: cpu_has_avx2_def cpu_has_amx_def split: sum.splits option.splits)

text \<open>
  A host without the \<open>cpuinfo\<close> module, and a host whose CPU reports no AVX2.
\<close>

theorem cpu_detection_fails_open_witness:
  "cpuinfo no_cpuinfo_host = Inl ImportError
   \<and> cpu_has_avx2 no_cpuinfo_host \<and> cpu_has_amx no_cpuinfo_host
   \<and> \<not> cpu_has_avx2 old_cpu_host"
proof -
  have h: "cpuinfo no_cpuinfo_host = Inl ImportError"
    by (simp add: no_cpuinfo_host_def)
  have o: "cpuinfo old_cpu_host = Inr [''flags'' \<mapsto> [''sse4_2'', ''avx'']]"
    by (simp add: old_cpu_host_def)
  have "cpu_has_avx2 no_cpuinfo_host \<and> cpu_has_amx no_cpuinfo_host"
    using cpu_detection_fails_open [of no_cpuinfo_host] h by blast
  moreover have "\<not> cpu_has_avx2 old_cpu_host"
    using cpu_detection_fails_open [of old_cpu_host] o by simp
  ultimately show ?thesis using h by simp
qed

text \<open>
  The flags of \<open>2.1.0+cpu\<close>.
\<close>

theorem build_flags_exclusive_witness:
  "well_formed_version ''2.1.0+cpu'' \<and> is_cpu ''2.1.0+cpu'' \<and> \<not> is_cuda ''2.1.0+cpu''
   \<and> length (filter (\<lambda>b. b) [is_cuda ''2.1.0+cpu'', is_rocm ''2.1.0+cpu'',
                 is_intel ''2.1.0+cpu'', is_cpu ''2.1.0+cpu'']) \<le> 1"
proof -
  have h: "well_formed_version ''2.1.0+cpu''" by (simp add: well_formed_version_def)
  have c: "is_cpu ''2.1.0+cpu''" by (simp add: is_cpu_def)
  from build_flags_exclusive [OF h] h c show ?thesis by blast
qed

text \<open>
  Claim C9 fails on the code by a slip. The loop tests \<open>choice not in 'ABCDN'\<close> on a
  string, which is a substring test: the empty line and \<open>ab\<close> are accepted at once,
  without a new prompt, though neither is one of the five letters.
\<close>

theorem gpu_prompt_accepts_more:
  "gpu_choice_loop (upper '''') stdin = ([], Done ('''', stdin))
   \<and> gpu_choice_loop (upper ''ab'') stdin = ([], Done (''AB'', stdin))
   \<and> read_gpu_choice linux_host ['''']
       = (gpu_menu @ [Prompt ''Input> ''], Done ('''', []))"
proof -
  have "str_in (upper '''') ''ABCDN''" "str_in (upper ''ab'') ''ABCDN''"
    by (simp_all add: upper_def upper_char_def latin_lowercase_def latin_uppercase_def)
  then show ?thesis
    using read_gpu_choice_menu [of linux_host "''''" "[]"]
    by (simp add: gpu_choice_loop_accept io_return_def upper_def upper_char_def latin_lowercase_def latin_uppercase_def)
qed

end
